theory Spec2Isabelle
  imports Main "HOL-Library.AList"
begin

section \<open>Strings\<close>

text \<open>
  JavaScript strings are modelled as \<open>string\<close>; a \<open>char\<close> stands for a code unit below 256.
  The white space of \<open>\s\<close> and of \<open>String.prototype.trim\<close> in that range is tab, line feed,
  vertical tab, form feed, carriage return, space and no-break space.
\<close>

definition is_space :: "char \<Rightarrow> bool" where
  "is_space c \<longleftrightarrow>
     c \<in> set [CHR 0x09, CHR 0x0A, CHR 0x0B, CHR 0x0C, CHR 0x0D, CHR 0x20, CHR 0xA0]"

text \<open>\<open>\d\<close> matches the ten ASCII digits only.\<close>

definition is_digit :: "char \<Rightarrow> bool" where
  "is_digit c \<longleftrightarrow> 48 \<le> (of_char c :: nat) \<and> (of_char c :: nat) \<le> 57"

text \<open>\<open>String.prototype.trim\<close>.\<close>

definition trim :: "string \<Rightarrow> string" where
  "trim s = rev (dropWhile is_space (rev (dropWhile is_space s)))"

text \<open>
  \<open>c === c.toUpperCase()\<close> for a string of one code unit below 256. The comparison fails
  exactly for the letters that have another upper case: \<open>a\<close> to \<open>z\<close>; the micro sign 0xB5,
  whose upper case is the Greek capital mu; the sharp s 0xDF, whose upper case is \<open>SS\<close>; 0xE0
  to 0xFE without the division sign 0xF7; and 0xFF, whose upper case is U+0178.
\<close>

definition equals_toUpperCase :: "char \<Rightarrow> bool" where
  "equals_toUpperCase c \<longleftrightarrow>
     \<not> (97 \<le> (of_char c :: nat) \<and> (of_char c :: nat) \<le> 122)
     \<and> (of_char c :: nat) \<noteq> 181
     \<and> \<not> (223 \<le> (of_char c :: nat) \<and> (of_char c :: nat) \<noteq> 247)"

text \<open>
  \<open>parseInt\<close> on a string of decimal digits, and the decimal text of an index as a template
  literal prints it. \<open>parseInt\<close> returns a double: up to \<open>2 ^ 53\<close> that is the integer the
  digits denote, which is what this function computes; beyond, JavaScript rounds, and the
  statements below are made for digit strings up to that bound only.
\<close>

definition parseInt :: "string \<Rightarrow> nat" where
  "parseInt ds = foldl (\<lambda>n c. 10 * n + ((of_char c :: nat) - 48)) 0 ds"

fun digits_of :: "nat \<Rightarrow> string" where
  "digits_of n =
     (if n < 10 then [char_of (48 + n)]
      else digits_of (n div 10) @ [char_of (48 + n mod 10)])"

declare digits_of.simps [simp del]

section \<open>Marker codec\<close>

text \<open>Lines 28--39: leading and trailing white space is condensed to one space.\<close>

definition collapseWhitespace :: "string \<Rightarrow> string" where
  "collapseWhitespace string =
     (let hasLeadingSpace = (case string of [] \<Rightarrow> False | c # _ \<Rightarrow> is_space c);
          hasTrailingSpace = (case rev string of [] \<Rightarrow> False | c # _ \<Rightarrow> is_space c);
          trimmed = trim string
      in if length trimmed = 0 then '' ''
         else (if hasLeadingSpace then '' '' else '''') @ trimmed
              @ (if hasTrailingSpace then '' '' else ''''))"

text \<open>
  The regular expression \<open>/\[\[\[(\d+)\]\]\]/\<close> tried at the head of a string: three opening
  brackets, the longest non-empty run of digits, three closing brackets. The result is the
  captured digits and the text after the match.
\<close>

definition match_marker :: "string \<Rightarrow> (string \<times> string) option" where
  "match_marker s =
     (if take 3 s = ''[[[''
      then (let ds = takeWhile is_digit (drop 3 s);
                after = dropWhile is_digit (drop 3 s)
            in if ds \<noteq> [] \<and> take 3 after = '']]]''
               then Some (ds, drop 3 after) else None)
      else None)"

lemma match_marker_shorter:
  "match_marker s = Some (ds, rest) \<Longrightarrow> length rest < length s"
proof -
  assume m: "match_marker s = Some (ds, rest)"
  then have t: "take 3 s = ''[[[''"
    by (simp add: match_marker_def split: if_splits)
  from m have r: "rest = drop 3 (dropWhile is_digit (drop 3 s))"
    by (simp add: match_marker_def Let_def split: if_splits)
  have "length (dropWhile is_digit (drop 3 s)) \<le> length (drop 3 s)"
    by (rule length_dropWhile_le)
  moreover from t have "3 \<le> length s"
    by (metis length_take min.cobounded1 length_Cons list.size(3) numeral_3_eq_3)
  ultimately show ?thesis using r by simp
qed

text \<open>
  \<open>String.prototype.split\<close> with that expression: the literal pieces (even positions)
  alternate with the captured digits (odd positions); the scan goes left to right and
  resumes after each match.
\<close>

function split_marker :: "string \<Rightarrow> string list" where
  "split_marker s =
     (case match_marker s of
        Some (ds, rest) \<Rightarrow> [] # ds # split_marker rest
      | None \<Rightarrow>
         (case s of
            [] \<Rightarrow> [[]]
          | c # cs \<Rightarrow>
             (case split_marker cs of
                [] \<Rightarrow> [[c]]
              | p # ps \<Rightarrow> (c # p) # ps)))"
  by pat_completeness auto
termination
  by (relation "measure length") (auto dest: match_marker_shorter)

declare split_marker.simps [simp del]

text \<open>A leaf of the positional tree: a literal string or a substitution index.\<close>

datatype item = Lit string | Idx nat

text \<open>What \<open>transformText\<close> returns: a string or a number (\<open>One\<close>), or an array of them.\<close>

datatype text_data = One item | Seq "item list"

text \<open>Lines 374--378: parts at even positions stay strings, parts at odd positions are
  parsed as numbers.\<close>

fun transform_parts :: "string list \<Rightarrow> item list" where
  "transform_parts [] = []"
| "transform_parts [p] = [Lit p]"
| "transform_parts (p # d # ps) = Lit p # Idx (parseInt d) # transform_parts ps"

text \<open>Line 380: the filter that removes empty strings.\<close>

definition keep_item :: "item \<Rightarrow> bool" where
  "keep_item i = (case i of Lit s \<Rightarrow> length s > 0 | Idx _ \<Rightarrow> True)"

text \<open>Lines 363--385.\<close>

definition transformText :: "string \<Rightarrow> text_data" where
  "transformText text =
     (let trimmed = collapseWhitespace text;
          parts = split_marker trimmed
      in if length parts = 1 then One (Lit trimmed)
         else (let transformed = transform_parts parts;
                   stripped = filter keep_item transformed
               in (case stripped of
                     [Idx n] \<Rightarrow> One (Idx n)
                   | _ \<Rightarrow> Seq stripped)))"

section \<open>Values, errors and promises\<close>

text \<open>
  The JavaScript values that substitutions, attributes and rendered output range over.
  \<open>Num n\<close> stands for the double that is the integer \<open>n\<close>, which exists for every \<open>n\<close> of
  magnitude up to \<open>2 ^ 53\<close>; a symbol is known by its description; an object is a plain
  object, known by its own properties in the order of their creation; functions are not
  values of the model. A promise is known by what becomes of it: it stays pending for
  ever, or it settles at a tick of the event loop's logical clock, fulfilled with a value
  or rejected with what was thrown.
\<close>

datatype jsval =
    Undefined
  | Null
  | Bool bool
  | Num int
  | Str string
  | Symbol string
  | Arr "jsval list"
  | Obj "(string \<times> jsval) list"
  | Promise pstate
and pstate =
    Pending
  | Fulfilled nat jsval
  | Rejected nat error
and error =
    TypeError
  | Thrown jsval

type_synonym props = "(string \<times> jsval) list"

text \<open>\<open>substitutions[data]\<close>: reading past the end of an array gives \<open>undefined\<close>.\<close>

definition subs_at :: "jsval list \<Rightarrow> nat \<Rightarrow> jsval" where
  "subs_at substitutions i = (if i < length substitutions then substitutions ! i else Undefined)"

text \<open>Reading a property of an object: a missing property is \<open>undefined\<close>.\<close>

definition get_prop :: "props \<Rightarrow> string \<Rightarrow> jsval" where
  "get_prop ps k = (case map_of ps k of Some v \<Rightarrow> v | None \<Rightarrow> Undefined)"

text \<open>
  \<open>ToString\<close>, as a template literal applies it, and \<open>Array.prototype.join\<close>, which prints
  \<open>undefined\<close> and \<open>null\<close> elements as the empty string. A symbol cannot be converted: a
  type error. A plain object is converted by the \<open>toString\<close> it inherits, unless it has
  a property \<open>toString\<close> of its own: that one is no function here, the \<open>valueOf\<close> tried
  next returns no primitive value, and the conversion ends in a type error. The digits of
  a number are what JavaScript prints for an integer of magnitude below \<open>10 ^ 21\<close>.
\<close>

fun to_string :: "jsval \<Rightarrow> error + string"
  and join :: "string \<Rightarrow> jsval list \<Rightarrow> error + string"
  and join_element :: "jsval \<Rightarrow> error + string" where
  "to_string Undefined = Inr ''undefined''"
| "to_string Null = Inr ''null''"
| "to_string (Bool b) = Inr (if b then ''true'' else ''false'')"
| "to_string (Num n) = Inr (if n < 0 then ''-'' @ digits_of (nat (- n)) else digits_of (nat n))"
| "to_string (Str s) = Inr s"
| "to_string (Symbol d) = Inl TypeError"
| "to_string (Arr xs) = join '','' xs"
| "to_string (Obj kvs) =
     (case map_of kvs ''toString'' of
        None \<Rightarrow> Inr ''[object Object]''
      | Some _ \<Rightarrow> Inl TypeError)"
| "to_string (Promise _) = Inr ''[object Promise]''"
| "join sep [] = Inr []"
| "join sep [x] = join_element x"
| "join sep (x # y # xs) =
     (case join_element x of
        Inl e \<Rightarrow> Inl e
      | Inr s \<Rightarrow>
         (case join sep (y # xs) of
            Inl e \<Rightarrow> Inl e
          | Inr r \<Rightarrow> Inr (s @ sep @ r)))"
| "join_element Undefined = Inr []"
| "join_element Null = Inr []"
| "join_element (Bool b) = to_string (Bool b)"
| "join_element (Num n) = to_string (Num n)"
| "join_element (Str s) = to_string (Str s)"
| "join_element (Symbol d) = to_string (Symbol d)"
| "join_element (Arr xs) = to_string (Arr xs)"
| "join_element (Obj kvs) = to_string (Obj kvs)"
| "join_element (Promise p) = to_string (Promise p)"

text \<open>\<open>!v\<close> is false: every value but \<open>undefined\<close>, \<open>null\<close>, \<open>false\<close>, zero and the empty
  string.\<close>

fun truthy_value :: "jsval \<Rightarrow> bool" where
  "truthy_value Undefined = False"
| "truthy_value Null = False"
| "truthy_value (Bool b) = b"
| "truthy_value (Num n) = (n \<noteq> 0)"
| "truthy_value (Str s) = (s \<noteq> [])"
| "truthy_value _ = True"

text \<open>\<open>result instanceof Promise\<close>.\<close>

fun is_promise :: "jsval \<Rightarrow> bool" where
  "is_promise (Promise _) = True"
| "is_promise _ = False"

text \<open>
  \<open>Promise.resolve(x)\<close> as seen from tick \<open>now\<close>: a value that is no promise is
  fulfilled at once, and a promise that settled earlier is seen settled now.
\<close>

fun as_promise :: "nat \<Rightarrow> jsval \<Rightarrow> pstate" where
  "as_promise now (Promise Pending) = Pending"
| "as_promise now (Promise (Fulfilled t v)) = Fulfilled (max now t) v"
| "as_promise now (Promise (Rejected t e)) = Rejected (max now t) e"
| "as_promise now v = Fulfilled now v"

text \<open>
  \<open>p.then(f)\<close>, called at tick \<open>now\<close>. The callback runs at the tick at which \<open>p\<close> is
  fulfilled and is told that tick; what it throws rejects the new promise, a promise it
  returns is adopted, any other value fulfils the new promise. A rejection of \<open>p\<close> passes
  through without running the callback.
\<close>

fun then_promise :: "nat \<Rightarrow> pstate \<Rightarrow> (jsval \<Rightarrow> nat \<Rightarrow> error + jsval) \<Rightarrow> pstate" where
  "then_promise now Pending f = Pending"
| "then_promise now (Rejected t e) f = Rejected (max now t) e"
| "then_promise now (Fulfilled t v) f =
     (case f v (max now t) of
        Inl e \<Rightarrow> Rejected (max now t) e
      | Inr w \<Rightarrow> as_promise (max now t) w)"

text \<open>
  \<open>Promise.all\<close>, as ECMAScript defines it: one slot per element of the input, a count of
  the elements still awaited, and the state of the combined promise. Each element's
  fulfilment stores its value in the element's own slot and, when it was the last one
  awaited, fulfils the combined promise with the slots; the first rejection rejects it.
\<close>

record all_state =
  slots :: "jsval list"
  remaining :: nat
  combined :: pstate

definition all_init :: "nat \<Rightarrow> nat \<Rightarrow> all_state" where
  "all_init now n =
     \<lparr>slots = replicate n Undefined, remaining = n,
      combined = (if n = 0 then Fulfilled now (Arr []) else Pending)\<rparr>"

definition all_step :: "pstate list \<Rightarrow> nat \<Rightarrow> all_state \<Rightarrow> all_state" where
  "all_step ps i st =
     (if combined st \<noteq> Pending then st
      else (case ps ! i of
              Pending \<Rightarrow> st
            | Rejected t e \<Rightarrow> st\<lparr>combined := Rejected t e\<rparr>
            | Fulfilled t v \<Rightarrow>
                (let vals = (slots st)[i := v]; left = remaining st - 1
                 in \<lparr>slots = vals, remaining = left,
                     combined = (if left = 0 then Fulfilled t (Arr vals) else Pending)\<rparr>)))"

fun settle_tick :: "pstate \<Rightarrow> nat" where
  "settle_tick Pending = 0"
| "settle_tick (Fulfilled t _) = t"
| "settle_tick (Rejected t _) = t"

text \<open>The positions of the elements that settle, in the order in which they settle
  (elements settling at the same tick in the order of their positions).\<close>

definition completion_order :: "pstate list \<Rightarrow> nat list" where
  "completion_order ps =
     sort_key (\<lambda>i. settle_tick (ps ! i)) (filter (\<lambda>i. ps ! i \<noteq> Pending) [0..<length ps])"

definition promise_all :: "nat \<Rightarrow> jsval list \<Rightarrow> pstate" where
  "promise_all now xs =
     (let ps = map (as_promise now) xs
      in combined (fold (all_step ps) (completion_order ps) (all_init now (length ps))))"

section \<open>Positional tree\<close>

text \<open>
  A component is a function from a properties object to an output or an eventual output;
  it may throw. It is told the tick of the logical clock at which it is invoked, so that a
  component that waits can say when its promise settles.
\<close>

type_synonym component = "props \<Rightarrow> nat \<Rightarrow> error + jsval"

type_synonym class_map = "string \<rightharpoonup> component"

text \<open>
  What a property of the global object or of a class map is bound to: a function, or a
  value that is no function.
\<close>

datatype binding = Function component | Value jsval

text \<open>
  The first element of a structured node: a tag name, a component, \<open>undefined\<close> (a class
  map read at a name it does not have), or another value that is neither a string nor a
  function (a binding found under a capitalised name).
\<close>

datatype name_data = Tag string | Comp component | NoName | Other jsval

text \<open>
  What \<open>transformNode\<close> returns: a string or a number, the array of parts of a text node,
  or the triple of name, attributes and children.
\<close>

datatype node =
    Leaf item
  | Parts "item list"
  | Elem name_data "(string \<times> text_data) list" "node list"

section \<open>Renderer core and text renderer\<close>

record renderers =
  render_children :: "jsval \<Rightarrow> jsval list option \<Rightarrow> error + jsval"
  render_element :: "jsval \<Rightarrow> props \<Rightarrow> jsval \<Rightarrow> error + jsval"
  render_value :: "jsval \<Rightarrow> error + jsval"

text \<open>Lines 231--233: \<open>children.join('')\<close>; a value without \<open>join\<close> is a type error.\<close>

definition renderChildrenToText :: "jsval \<Rightarrow> jsval list option \<Rightarrow> error + jsval" where
  "renderChildrenToText children substitutions =
     (case children of
        Arr xs \<Rightarrow> (case join [] xs of Inl e \<Rightarrow> Inl e | Inr s \<Rightarrow> Inr (Str s))
      | _ \<Rightarrow> Inl TypeError)"

text \<open>Lines 247--249: one piece of text per attribute, in the order of \<open>Object.keys\<close>; each
  template literal converts the attribute's value to a string.\<close>

fun attribute_text :: "props \<Rightarrow> error + string" where
  "attribute_text [] = Inr []"
| "attribute_text ((name, v) # rest) =
     (case to_string v of
        Inl e \<Rightarrow> Inl e
      | Inr s \<Rightarrow>
         (case attribute_text rest of
            Inl e \<Rightarrow> Inl e
          | Inr r \<Rightarrow> Inr ('' '' @ name @ ''='' @ [CHR 0x22] @ s @ [CHR 0x22] @ r)))"

text \<open>Lines 246--251.\<close>

definition renderElementToText :: "jsval \<Rightarrow> props \<Rightarrow> jsval \<Rightarrow> error + jsval" where
  "renderElementToText tag attributes children =
     (case attribute_text attributes of
        Inl e \<Rightarrow> Inl e
      | Inr attributeText \<Rightarrow>
         (case to_string tag of
            Inl e \<Rightarrow> Inl e
          | Inr t \<Rightarrow>
             (case to_string children of
                Inl e \<Rightarrow> Inl e
              | Inr c \<Rightarrow>
                  Inr (Str (''<'' @ t @ attributeText @ ''>'' @ c @ ''</'' @ t @ ''>'')))))"

text \<open>Lines 266--268.\<close>

definition renderValueToText :: "jsval \<Rightarrow> error + jsval" where
  "renderValueToText v = Inr v"

text \<open>The renderers that \<open>renderToText\<close> passes (lines 258--262).\<close>

definition text_renderers :: renderers where
  "text_renderers =
     \<lparr>render_children = renderChildrenToText,
      render_element = renderElementToText,
      render_value = renderValueToText\<rparr>"

text \<open>
  Lines 184--188, the two branches of \<open>render\<close> for a string and for a number. Both call
  \<open>renderers.value\<close>.
\<close>

fun render_item :: "renderers \<Rightarrow> jsval list \<Rightarrow> item \<Rightarrow> error + jsval" where
  "render_item renderers substitutions (Lit s) = render_value renderers (Str s)"
| "render_item renderers substitutions (Idx i) =
     render_value renderers (subs_at substitutions i)"

text \<open>Line 276, \<open>value.map(item => renderToText(item, substitutions))\<close>: the parts of an
  attribute are strings and numbers, so each call ends in one of the two branches above.\<close>

fun render_parts :: "jsval list \<Rightarrow> item list \<Rightarrow> error + jsval list" where
  "render_parts substitutions [] = Inr []"
| "render_parts substitutions (i # is) =
     (case render_item text_renderers substitutions i of
        Inl e \<Rightarrow> Inl e
      | Inr v \<Rightarrow>
         (case render_parts substitutions is of
            Inl e \<Rightarrow> Inl e
          | Inr vs \<Rightarrow> Inr (v # vs)))"

text \<open>
  \<open>object[name] = v\<close> on a plain object: the property is updated in its place or added at
  the end. Under the name \<open>__proto__\<close> the assignment reaches the setter that the object
  inherits and no property of its own is stored (the prototype that the setter may
  install is not followed by the model). Names that are array indices, which JavaScript
  lists before the others, are not met: the name of an attribute does not start with a
  digit.
\<close>

definition assign :: "string \<Rightarrow> 'a \<Rightarrow> (string \<times> 'a) list \<Rightarrow> (string \<times> 'a) list" where
  "assign name v object = (if name = ''__proto__'' then object else AList.update name v object)"

text \<open>Lines 271--281; the loop over \<open>Object.entries(attributesData)\<close>, with the object
  \<open>resolved\<close> as it is filled.\<close>

fun resolve_entries ::
  "props \<Rightarrow> (string \<times> text_data) list \<Rightarrow> jsval list \<Rightarrow> error + props" where
  "resolve_entries resolved [] substitutions = Inr resolved"
| "resolve_entries resolved ((name, v) # rest) substitutions =
     (case (case v of
              Seq parts \<Rightarrow>
                (case render_parts substitutions parts of
                   Inl e \<Rightarrow> Inl e
                 | Inr vs \<Rightarrow>
                    (case join [] vs of
                       Inl e \<Rightarrow> Inl e
                     | Inr s \<Rightarrow> Inr (Str s)))
            | One i \<Rightarrow> render_item text_renderers substitutions i) of
        Inl e \<Rightarrow> Inl e
      | Inr r \<Rightarrow> resolve_entries (assign name r resolved) rest substitutions)"

definition resolveAttributes :: "(string \<times> text_data) list \<Rightarrow> jsval list \<Rightarrow> error + props" where
  "resolveAttributes attributesData substitutions =
     resolve_entries [] attributesData substitutions"

text \<open>Lines 236--243: \<open>Object.assign({}, attributes, { children })\<close>.\<close>

definition renderComponent :: "component \<Rightarrow> props \<Rightarrow> jsval \<Rightarrow> nat \<Rightarrow> error + jsval" where
  "renderComponent component attributes children now =
     component (AList.update ''children'' children attributes) now"

text \<open>Line 194, \<open>isComponent ? renderComponent : renderers.element\<close>, applied.\<close>

fun topRenderer ::
  "renderers \<Rightarrow> name_data \<Rightarrow> props \<Rightarrow> jsval \<Rightarrow> nat \<Rightarrow> error + jsval" where
  "topRenderer renderers (Comp f) attributes children now =
     renderComponent f attributes children now"
| "topRenderer renderers (Tag s) attributes children now =
     render_element renderers (Str s) attributes children"
| "topRenderer renderers NoName attributes children now =
     render_element renderers Undefined attributes children"
| "topRenderer renderers (Other v) attributes children now =
     render_element renderers v attributes children"

text \<open>
  Lines 183--228. \<open>render_all\<close> is the \<open>childrenData.map\<close> of line 214: the children are
  rendered one after the other, all at the same tick, and an exception ends the loop.
  An array of parts in the place of a node has no array of children to map over.
\<close>

fun render :: "renderers \<Rightarrow> jsval list \<Rightarrow> nat \<Rightarrow> node \<Rightarrow> error + jsval"
  and renderChildren :: "renderers \<Rightarrow> jsval list \<Rightarrow> nat \<Rightarrow> node list \<Rightarrow> error + jsval"
  and render_all :: "renderers \<Rightarrow> jsval list \<Rightarrow> nat \<Rightarrow> node list \<Rightarrow> error + jsval list" where
  "render renderers substitutions now (Leaf i) = render_item renderers substitutions i"
| "render renderers substitutions now (Parts ps) = Inl TypeError"
| "render renderers substitutions now (Elem nameData attributesData childrenData) =
     (case resolveAttributes attributesData substitutions of
        Inl e \<Rightarrow> Inl e
      | Inr resolvedAttributes \<Rightarrow>
         (case renderChildren renderers substitutions now childrenData of
            Inl e \<Rightarrow> Inl e
          | Inr awaitedChildren \<Rightarrow>
             (case awaitedChildren of
                Promise p \<Rightarrow>
                  Inr (Promise (then_promise now p
                         (\<lambda>children t. topRenderer renderers nameData resolvedAttributes children t)))
              | _ \<Rightarrow> topRenderer renderers nameData resolvedAttributes awaitedChildren now)))"
| "renderChildren renderers substitutions now childrenData =
     (case render_all renderers substitutions now childrenData of
        Inl e \<Rightarrow> Inl e
      | Inr rendered \<Rightarrow>
         (if list_ex is_promise rendered
          then Inr (Promise (then_promise now (promise_all now rendered)
                      (\<lambda>children t. render_children renderers children (Some substitutions))))
          else render_children renderers (Arr rendered) None))"
| "render_all renderers substitutions now [] = Inr []"
| "render_all renderers substitutions now (child # rest) =
     (case render renderers substitutions now child of
        Inl e \<Rightarrow> Inl e
      | Inr v \<Rightarrow>
         (case render_all renderers substitutions now rest of
            Inl e \<Rightarrow> Inl e
          | Inr vs \<Rightarrow> Inr (v # vs)))"

text \<open>Lines 257--263.\<close>

definition renderToText :: "node \<Rightarrow> jsval list \<Rightarrow> nat \<Rightarrow> error + jsval" where
  "renderToText data substitutions now = render text_renderers substitutions now data"

section \<open>Default components\<close>

text \<open>Lines 42--49 and 173--175.\<close>

definition DocumentFragment :: component where
  "DocumentFragment props now = Inr (get_prop props ''children'')"

definition DocumentType :: component where
  "DocumentType props now =
     (case to_string (get_prop props ''name'') of
        Inl e \<Rightarrow> Inl e
      | Inr name \<Rightarrow> Inr (Str (''<!doctype '' @ name @ ''>'')))"

definition ProcessingInstruction :: component where
  "ProcessingInstruction props now =
     (case to_string (get_prop props ''target'') of
        Inl e \<Rightarrow> Inl e
      | Inr target \<Rightarrow>
         (case to_string (get_prop props ''data'') of
            Inl e \<Rightarrow> Inl e
          | Inr data \<Rightarrow> Inr (Str (''<!'' @ target @ '' '' @ data @ ''>''))))"

text \<open>Lines 12--17.\<close>

definition defaultClassMap :: class_map where
  "defaultClassMap =
     [''DocumentFragment'' \<mapsto> DocumentFragment,
      ''DocumentType'' \<mapsto> DocumentType,
      ''ProcessingInstruction'' \<mapsto> ProcessingInstruction]"

section \<open>Tree transformer\<close>

text \<open>
  The node tree that the markup parser returns, an external library: text, processing
  instruction (target, data), document type (name), comment, and element (node name, local
  name, attributes in document order, child nodes).
\<close>

datatype dom =
    TextNode string
  | PINode string string
  | DoctypeNode string
  | CommentNode string
  | ElementNode string string "(string \<times> string) list" "dom list"

fun nodeType :: "dom \<Rightarrow> nat" where
  "nodeType (ElementNode _ _ _ _) = 1"
| "nodeType (TextNode _) = 3"
| "nodeType (PINode _ _) = 7"
| "nodeType (CommentNode _) = 8"
| "nodeType (DoctypeNode _) = 10"

text \<open>\<open>node.nodeName\<close>; the parser library gives a processing instruction none.\<close>

fun nodeName :: "dom \<Rightarrow> string option" where
  "nodeName (ElementNode n _ _ _) = Some n"
| "nodeName (TextNode _) = Some ''#text''"
| "nodeName (PINode _ _) = None"
| "nodeName (CommentNode _) = Some ''#comment''"
| "nodeName (DoctypeNode n) = Some n"

text \<open>\<open>node.childNodes\<close>; only an element has child nodes.\<close>

fun childNodes :: "dom \<Rightarrow> dom list" where
  "childNodes (ElementNode _ _ _ kids) = kids"
| "childNodes _ = []"

text \<open>\<open>node.textContent\<close>: the text below an element, comments and processing instructions
  left out; the data of any other node.\<close>

fun textContent :: "dom \<Rightarrow> string"
  and textContent_list :: "dom list \<Rightarrow> string" where
  "textContent (TextNode t) = t"
| "textContent (PINode _ d) = d"
| "textContent (DoctypeNode _) = []"
| "textContent (CommentNode c) = c"
| "textContent (ElementNode _ _ _ kids) = textContent_list kids"
| "textContent_list [] = []"
| "textContent_list (k # ks) =
     (if nodeType k = 7 \<or> nodeType k = 8 then [] else textContent k) @ textContent_list ks"

text \<open>Lines 284--290.\<close>

definition transformAttributes :: "(string \<times> string) list \<Rightarrow> (string \<times> text_data) list" where
  "transformAttributes attributes =
     foldl (\<lambda>attributeData (name, v). assign name (transformText v) attributeData)
           [] attributes"

text \<open>\<open>classMap.DocumentType\<close> and \<open>classMap.ProcessingInstruction\<close>: a property read.\<close>

definition class_entry :: "class_map \<Rightarrow> string \<Rightarrow> name_data" where
  "class_entry classMap n = (case classMap n of Some f \<Rightarrow> Comp f | None \<Rightarrow> NoName)"

text \<open>Lines 293--302 and 350--360.\<close>

definition transformDocumentType :: "string \<Rightarrow> class_map \<Rightarrow> node" where
  "transformDocumentType name classMap =
     Elem (class_entry classMap ''DocumentType'') [(''name'', One (Lit name))] []"

definition transformProcessingInstruction :: "string \<Rightarrow> string \<Rightarrow> class_map \<Rightarrow> node" where
  "transformProcessingInstruction target data classMap =
     Elem (class_entry classMap ''ProcessingInstruction'')
          [(''data'', One (Lit data)), (''target'', One (Lit target))] []"

text \<open>The result of \<open>transformText\<close> as a node, and line 341, \<open>result.concat(transformed)\<close>:
  an array is spliced in, anything else is appended.\<close>

fun node_of_text :: "text_data \<Rightarrow> node" where
  "node_of_text (One i) = Leaf i"
| "node_of_text (Seq ps) = Parts ps"

fun spliced :: "node \<Rightarrow> node list" where
  "spliced (Parts ps) = map Leaf ps"
| "spliced n = [n]"

text \<open>The string thrown at line 323.\<close>

definition not_found_message :: "string \<Rightarrow> string" where
  "not_found_message localName =
     ''Couldn'' @ [CHR 0x27] @ ''t find definition for '' @ [CHR 0x22] @ localName
     @ [CHR 0x22] @ ''.''"

text \<open>
  The global object: its properties by name. A class map is a plain object whose own
  properties are components (the contract of the class map); read at another name, it
  gives what it inherits from \<open>Object.prototype\<close>. Of the names there, those that line 318
  takes for class names start with an underscore: \<open>__proto__\<close>, which reads as the
  prototype object itself, and four native methods, which throw a type error when they
  are called as a component is, without a receiver. The other inherited names start with
  a lowercase letter and are never read. Properties added to \<open>Object.prototype\<close> or to a
  component are not modelled.
\<close>

type_synonym globals = "string \<rightharpoonup> binding"

definition native_method :: component where
  "native_method props now = Inl TypeError"

definition inherited :: "string \<Rightarrow> binding option" where
  "inherited n =
     (if n = ''__proto__'' then Some (Value (Obj []))
      else if n \<in> set [''__defineGetter__'', ''__defineSetter__'',
                        ''__lookupGetter__'', ''__lookupSetter__'']
      then Some (Function native_method)
      else None)"

definition read_class :: "class_map \<Rightarrow> string \<Rightarrow> binding option" where
  "read_class classMap n = (case classMap n of Some f \<Rightarrow> Some (Function f) | None \<Rightarrow> inherited n)"

text \<open>A value that is no function in the place of the name: a string is a tag name.\<close>

fun name_of_value :: "jsval \<Rightarrow> name_data" where
  "name_of_value (Str s) = Tag s"
| "name_of_value Undefined = NoName"
| "name_of_value v = Other v"

text \<open>An operand of \<open>||\<close> and of \<open>!\<close>: a missing property and a falsy value count for
  nothing; a function is a component, any other value stands in the place of the name.\<close>

fun bound_name :: "binding option \<Rightarrow> name_data option" where
  "bound_name None = None"
| "bound_name (Some (Function f)) = Some (Comp f)"
| "bound_name (Some (Value v)) = (if truthy_value v then Some (name_of_value v) else None)"

text \<open>
  Lines 308--347. The first argument stands for the global object, whose bindings line 320
  reads when the class map gives nothing. A comment has no local name, and an empty local
  name has no first character: both end in a type error.
\<close>

fun transformNode :: "globals \<Rightarrow> dom \<Rightarrow> class_map \<Rightarrow> error + node"
  and transformNodes :: "globals \<Rightarrow> dom list \<Rightarrow> class_map \<Rightarrow> error + node list" where
  "transformNode global (TextNode t) classMap = Inr (node_of_text (transformText t))"
| "transformNode global (PINode target data) classMap =
     Inr (transformProcessingInstruction target data classMap)"
| "transformNode global (DoctypeNode name) classMap = Inr (transformDocumentType name classMap)"
| "transformNode global (CommentNode c) classMap = Inl TypeError"
| "transformNode global (ElementNode qualified localName attributes kids) classMap =
     (case localName of
        [] \<Rightarrow> Inl TypeError
      | c # _ \<Rightarrow>
         (let isClassName = equals_toUpperCase c;
              nameData =
                (if isClassName
                 then (case bound_name (read_class classMap localName) of
                         Some nd \<Rightarrow> Some nd
                       | None \<Rightarrow> bound_name (global localName))
                 else Some (Tag localName))
          in case nameData of
               None \<Rightarrow> Inl (Thrown (Str (not_found_message localName)))
             | Some nd \<Rightarrow>
                (let attributeData = transformAttributes attributes
                 in case transformNodes global kids classMap of
                      Inl e \<Rightarrow> Inl e
                    | Inr childrenData \<Rightarrow> Inr (Elem nd attributeData childrenData))))"
| "transformNodes global [] classMap = Inr []"
| "transformNodes global (n # ns) classMap =
     (case transformNode global n classMap of
        Inl e \<Rightarrow> Inl e
      | Inr transformed \<Rightarrow>
         (case transformNodes global ns classMap of
            Inl e \<Rightarrow> Inl e
          | Inr result \<Rightarrow>
             Inr ((if nodeType n = 3 then spliced transformed else [transformed]) @ result)))"

section \<open>Parsing and the template cache\<close>

text \<open>Lines 55--66. The error node is the first child or the first grandchild.\<close>

definition first_child :: "dom \<Rightarrow> dom option" where
  "first_child n = (case childNodes n of [] \<Rightarrow> None | c # _ \<Rightarrow> Some c)"

definition isErrorNode :: "dom option \<Rightarrow> bool" where
  "isErrorNode n = (case n of None \<Rightarrow> False | Some d \<Rightarrow> nodeName d = Some ''parsererror'')"

definition findDOMParserError :: "dom \<Rightarrow> string option" where
  "findDOMParserError n =
     (let child = first_child n;
          grandchild = (case child of None \<Rightarrow> None | Some c \<Rightarrow> first_child c);
          errorNode = (if isErrorNode child then child
                       else if isErrorNode grandchild then grandchild else None)
      in map_option textContent errorNode)"

text \<open>
  Lines 141--170. The markup parser is a parameter: it maps the wrapped text to the first
  child of the document it builds, or to nothing when the document is empty. An error text
  that is the empty string is falsy and is not thrown.
\<close>

definition wrap :: "string \<Rightarrow> string" where
  "wrap jsx = ''<DocumentFragment>'' @ trim jsx @ ''</DocumentFragment>''"

definition parseJSX ::
  "(string \<Rightarrow> dom option) \<Rightarrow> globals \<Rightarrow> string \<Rightarrow> class_map \<Rightarrow> error + node" where
  "parseJSX domParser global jsx classMap =
     (let wrapped = wrap jsx;
          extendedClassMap = defaultClassMap ++ classMap
      in case domParser wrapped of
           None \<Rightarrow> Inl TypeError
         | Some wrapperNode \<Rightarrow>
            (case findDOMParserError wrapperNode of
               Some (c # cs) \<Rightarrow> Inl (Thrown (Str (c # cs)))
             | _ \<Rightarrow>
                (let node = (case childNodes wrapperNode of [only] \<Rightarrow> only | _ \<Rightarrow> wrapperNode)
                 in transformNode global node extendedClassMap)))"

text \<open>Lines 108--120: the marker of a substitution and the text handed to \<open>parseJSX\<close>.\<close>

definition marker :: "nat \<Rightarrow> string" where
  "marker index = ''[[['' @ digits_of index @ '']]]''"

definition parse ::
  "(string \<Rightarrow> dom option) \<Rightarrow> globals \<Rightarrow> string list \<Rightarrow> class_map \<Rightarrow> error + node" where
  "parse domParser global strings classMap =
     parseJSX domParser global
       (concat (map (\<lambda>(index, string).
                       string @ (if Suc index < length strings then marker index else []))
                    (enumerate 0 strings)))
       classMap"

text \<open>
  The array of literal segments of a template: an object with an identity, which is what
  a \<open>WeakMap\<close> is keyed by.
\<close>

record strings_object =
  identity :: nat
  segments :: "string list"

type_synonym cache = "nat \<rightharpoonup> node"

text \<open>Line 126, \<open>!data\<close>: the empty string and the number zero are falsy, like a key
  under which nothing is stored.\<close>

fun truthy :: "node \<Rightarrow> bool" where
  "truthy (Leaf (Lit s)) = (s \<noteq> [])"
| "truthy (Leaf (Idx n)) = (n \<noteq> 0)"
| "truthy _ = True"

text \<open>Lines 123--132; the cache is returned as the call leaves it.\<close>

definition parseAndCache ::
  "(string \<Rightarrow> dom option) \<Rightarrow> globals \<Rightarrow> strings_object \<Rightarrow> class_map \<Rightarrow> cache
     \<Rightarrow> (error + node) \<times> cache" where
  "parseAndCache domParser global strings classMap cache =
     (let parsed =
            (case parse domParser global (segments strings) classMap of
               Inl e \<Rightarrow> (Inl e, cache)
             | Inr data \<Rightarrow> (Inr data, cache(identity strings \<mapsto> data)))
      in case cache (identity strings) of
           None \<Rightarrow> parsed
         | Some data \<Rightarrow> if truthy data then (Inr data, cache) else parsed)"

section \<open>Components of the test suite and predicates of the statements\<close>

text \<open>The component \<open>Bold\<close> of the tests: \<open><b>${props.children}</b>\<close>.\<close>

definition Bold :: component where
  "Bold props now =
     (case to_string (get_prop props ''children'') of
        Inl e \<Rightarrow> Inl e
      | Inr children \<Rightarrow> Inr (Str (''<b>'' @ children @ ''</b>'')))"

text \<open>
  The component \<open>Async\<close> of the test of parallel waiting: an asynchronous function that
  waits \<open>props.delay\<close> ticks (an attribute of decimal digits) and then returns its children
  in square brackets. Its promise is fulfilled that many ticks after the invocation; what
  the function throws rejects the promise.
\<close>

definition Async :: component where
  "Async props now =
     Inr (Promise
       (case to_string (get_prop props ''delay'') of
          Inl e \<Rightarrow> Rejected now e
        | Inr delay \<Rightarrow>
           (case to_string (get_prop props ''children'') of
              Inl e \<Rightarrow> Rejected (now + parseInt delay) e
            | Inr children \<Rightarrow>
                Fulfilled (now + parseInt delay) (Str (''['' @ children @ '']'')))))"

text \<open>
  The numbers in a value that \<open>join\<close> prints are doubles that it prints digit by digit:
  integers of magnitude up to \<open>2 ^ 53\<close>. An object and a promise are printed without a look
  at what they hold.
\<close>

fun plain_numbers :: "jsval \<Rightarrow> bool"
  and plain_numbers_list :: "jsval list \<Rightarrow> bool" where
  "plain_numbers (Num n) = (\<bar>n\<bar> \<le> 9007199254740992)"
| "plain_numbers (Arr xs) = plain_numbers_list xs"
| "plain_numbers Undefined = True"
| "plain_numbers Null = True"
| "plain_numbers (Bool b) = True"
| "plain_numbers (Str s) = True"
| "plain_numbers (Symbol d) = True"
| "plain_numbers (Obj kvs) = True"
| "plain_numbers (Promise p) = True"
| "plain_numbers_list [] = True"
| "plain_numbers_list (x # xs) = (plain_numbers x \<and> plain_numbers_list xs)"

text \<open>One part of a multi-part attribute as \<open>join\<close> prints it: a literal as it is, an
  index as the substitution at that index is printed.\<close>

fun part_text :: "jsval list \<Rightarrow> item \<Rightarrow> error + string" where
  "part_text substitutions (Lit s) = Inr s"
| "part_text substitutions (Idx i) = join_element (subs_at substitutions i)"

text \<open>An uppercase letter; \<open>typeof v === 'string'\<close>.\<close>

definition is_upper :: "char \<Rightarrow> bool" where
  "is_upper c \<longleftrightarrow> 65 \<le> (of_char c :: nat) \<and> (of_char c :: nat) \<le> 90"

fun is_string :: "jsval \<Rightarrow> bool" where
  "is_string (Str _) = True"
| "is_string _ = False"

text \<open>A promise that is fulfilled, and the value it is fulfilled with.\<close>

fun is_fulfilled :: "pstate \<Rightarrow> bool" where
  "is_fulfilled (Fulfilled _ _) = True"
| "is_fulfilled _ = False"

fun fulfilled_value :: "pstate \<Rightarrow> jsval" where
  "fulfilled_value (Fulfilled _ v) = v"
| "fulfilled_value _ = Undefined"

section \<open>Marker codec: decoding\<close>

lemma not_digit_bracket: "\<not> is_digit CHR '']''"
  by (simp add: is_digit_def)

lemma match_marker_token:
  assumes "ds \<noteq> []" and "\<forall>c\<in>set ds. is_digit c"
  shows "match_marker (''[[['' @ ds @ '']]]'' @ r) = Some (ds, r)"
  using assms
  by (simp add: match_marker_def takeWhile_tail dropWhile_append3 not_digit_bracket)

lemma match_marker_Nil: "match_marker [] = None"
  by (simp add: match_marker_def)

lemma split_marker_token:
  assumes "ds \<noteq> []" and "\<forall>c\<in>set ds. is_digit c"
  shows "split_marker (''[[['' @ ds @ '']]]'') = [[], ds, []]"
proof -
  have "match_marker (''[[['' @ ds @ '']]]'' @ []) = Some (ds, [])"
    using assms by (rule match_marker_token)
  then show ?thesis
    by (subst split_marker.simps) (simp add: split_marker.simps [of "[]"] match_marker_Nil)
qed

lemma collapseWhitespace_not_Nil: "collapseWhitespace s \<noteq> []"
  by (simp add: collapseWhitespace_def Let_def)

lemma transformText_single_token:
  assumes "collapseWhitespace text = ''[[['' @ ds @ '']]]''"
    and "ds \<noteq> []" and "\<forall>c\<in>set ds. is_digit c"
  shows "transformText text = One (Idx (parseInt ds))"
proof -
  have "split_marker (collapseWhitespace text) = [[], ds, []]"
    using assms(1) split_marker_token [OF assms(2,3)] by simp
  then show ?thesis
    by (simp add: transformText_def Let_def keep_item_def)
qed

lemma transformText_never_empty: "transformText text \<noteq> One (Lit [])"
  by (simp add: transformText_def Let_def collapseWhitespace_not_Nil
           split: list.splits item.splits)

lemma transformText_Seq_pruned:
  assumes "transformText text = Seq ps"
  shows "Lit [] \<notin> set ps"
proof -
  from assms
  have "ps = filter keep_item (transform_parts (split_marker (collapseWhitespace text)))"
    by (auto simp add: transformText_def Let_def split: if_splits list.splits item.splits)
  then show ?thesis
    by (simp add: keep_item_def)
qed

text \<open>
  C4. A text that, once its white space is collapsed, is exactly one marker token (three
  opening brackets, one or more digits, three closing brackets) whose digits denote an
  index up to \<open>2 ^ 53\<close>, the range in which \<open>parseInt\<close> returns the integer itself, is
  decoded to the bare index, not to a sequence holding the index; and no decoded result,
  whatever the text, is or holds an empty literal.
\<close>

theorem transformText_compact_index_and_pruned:
  assumes "collapseWhitespace text = ''[[['' @ ds @ '']]]''"
    and "ds \<noteq> []" and "\<forall>c\<in>set ds. is_digit c"
    and "parseInt ds \<le> 9007199254740992"
  shows "transformText text = One (Idx (parseInt ds))
       \<and> transformText text \<noteq> Seq [Idx (parseInt ds)]
       \<and> transformText other \<noteq> One (Lit [])
       \<and> (\<forall>ps. transformText other = Seq ps \<longrightarrow> Lit [] \<notin> set ps)"
  using transformText_single_token [OF assms(1,2,3)] transformText_never_empty [of other]
    transformText_Seq_pruned [of other]
  by simp

theorem transformText_compact_index_and_pruned_witness:
  "parseInt ''12'' \<le> 9007199254740992
   \<and> transformText ''[[[12]]]'' = One (Idx 12)
   \<and> transformText ''a[[[0]]]'' = Seq [Lit ''a'', Idx 0]
   \<and> Lit [] \<notin> set [Lit ''a'', Idx 0]"
proof -
  have c: "collapseWhitespace ''[[[12]]]'' = ''[[['' @ ''12'' @ '']]]''"
    by (simp add: collapseWhitespace_def trim_def is_space_def)
  have d: "\<forall>c\<in>set ''12''. is_digit c"
    by (simp add: is_digit_def)
  have n: "''12'' \<noteq> []"
    by simp
  have p: "parseInt ''12'' = 12"
    by (simp add: parseInt_def)
  have s: "transformText ''a[[[0]]]'' = Seq [Lit ''a'', Idx 0]"
    by code_simp
  have b: "parseInt ''12'' \<le> 9007199254740992"
    by (simp add: p)
  from transformText_compact_index_and_pruned [OF c n d b, of "''a[[[0]]]''"] p s
  show ?thesis by simp
qed

section \<open>Rendering of leaves\<close>

text \<open>
  C2 (as amended). For a literal-string node, \<open>render\<close> returns what \<open>renderers.value\<close>
  returns on that string, and for an index node what \<open>renderers.value\<close> returns on the
  substitution at that index: both branches invoke \<open>renderers.value\<close>. With the text
  renderers, whose \<open>value\<close> is the identity, a literal string is rendered as itself.
\<close>

theorem render_leaf_invokes_value:
  "render renderers substitutions now (Leaf (Lit s)) = render_value renderers (Str s)
   \<and> render renderers substitutions now (Leaf (Idx i))
     = render_value renderers (subs_at substitutions i)
   \<and> render text_renderers substitutions now (Leaf (Lit s)) = Inr (Str s)"
  by (simp add: text_renderers_def renderValueToText_def)

theorem render_leaf_invokes_value_witness:
  "render (text_renderers\<lparr>render_value := (\<lambda>v. Inr (Arr [v]))\<rparr>) [Num 5] 0 (Leaf (Lit ''a''))
     = Inr (Arr [Str ''a''])
   \<and> render (text_renderers\<lparr>render_value := (\<lambda>v. Inr (Arr [v]))\<rparr>) [Num 5] 0 (Leaf (Idx 0))
     = Inr (Arr [Num 5])
   \<and> render text_renderers [Num 5] 0 (Leaf (Lit ''a'')) = Inr (Str ''a'')"
  using render_leaf_invokes_value
    [of "text_renderers\<lparr>render_value := (\<lambda>v. Inr (Arr [v]))\<rparr>" "[Num 5]" 0 "''a''" 0]
  by (simp add: subs_at_def)

text \<open>
  C2 as stated fails: with renderers whose \<open>value\<close> throws what it is given, rendering the
  literal \<open>a\<close>, alone or as the child of an element, throws that literal, so \<open>value\<close> was
  invoked on it.
\<close>

theorem render_literal_passes_through_counterexample:
  "render (text_renderers\<lparr>render_value := (\<lambda>v. Inl (Thrown v))\<rparr>) [] 0 (Leaf (Lit ''a''))
     = Inl (Thrown (Str ''a''))
   \<and> render (text_renderers\<lparr>render_value := (\<lambda>v. Inl (Thrown v))\<rparr>) [] 0
        (Elem (Tag ''b'') [] [Leaf (Lit ''a'')])
     = Inl (Thrown (Str ''a''))"
  by (simp add: resolveAttributes_def)

text \<open>
  C6 (as amended). For an index node whose index is not below the length of the
  substitution array, \<open>render\<close> raises no bounds error: it returns what \<open>renderers.value\<close>
  returns on \<open>undefined\<close>, which with the text renderers is \<open>undefined\<close> itself.
\<close>

theorem render_index_out_of_range:
  assumes "length substitutions \<le> i"
  shows "render renderers substitutions now (Leaf (Idx i)) = render_value renderers Undefined
       \<and> render text_renderers substitutions now (Leaf (Idx i)) = Inr Undefined"
  using assms by (simp add: subs_at_def text_renderers_def renderValueToText_def)

theorem render_index_out_of_range_witness:
  "length [Str ''x''] \<le> 3 \<and> render text_renderers [Str ''x''] 0 (Leaf (Idx 3)) = Inr Undefined"
  using render_index_out_of_range [of "[Str ''x'']" 3 text_renderers 0]
  by (simp add: text_renderers_def renderValueToText_def)

text \<open>
  C6 as stated fails: rendering index 0 against the empty substitution array returns
  \<open>undefined\<close>, and an element with the child index 3 against one substitution renders as
  an empty element; neither raises an error.
\<close>

theorem render_bounds_error_counterexample:
  "render text_renderers [] 0 (Leaf (Idx 0)) = Inr Undefined
   \<and> render text_renderers [Str ''x''] 0 (Elem (Tag ''b'') [] [Leaf (Idx 3)])
     = Inr (Str ''<b></b>'')"
  by (simp add: text_renderers_def renderValueToText_def subs_at_def resolveAttributes_def
      renderChildrenToText_def renderElementToText_def)

section \<open>Resolution of capitalised names\<close>

text \<open>
  C5. An element whose local name starts with an uppercase letter, with no entry of that
  name in the class map (the caller's map with the defaults, as \<open>parseJSX\<close> passes it) and
  no global binding of that name, makes \<open>transformNode\<close> throw the message
  \<open>Couldn't find definition for "name".\<close>, whatever its attributes and children are.
\<close>

lemma upper_equals_toUpperCase: "is_upper c \<Longrightarrow> equals_toUpperCase c"
  by (simp add: is_upper_def equals_toUpperCase_def)

lemma upper_not_underscore: "is_upper c \<Longrightarrow> c \<noteq> CHR ''_''"
  by (auto simp add: is_upper_def)

lemma upper_not_inherited: "is_upper c \<Longrightarrow> inherited (c # cs) = None"
  by (simp add: inherited_def upper_not_underscore)

lemma read_class_upper:
  "is_upper c \<Longrightarrow> read_class classMap (c # cs) = map_option Function (classMap (c # cs))"
  by (simp add: read_class_def upper_not_inherited split: option.splits)



section \<open>The fragment wrapper and the extended class map\<close>

lemma parseJSX_single_root:
  assumes "domParser (wrap jsx) = Some (ElementNode w wl wattrs [only])"
    and "findDOMParserError (ElementNode w wl wattrs [only]) = None"
  shows "parseJSX domParser global jsx classMap
         = transformNode global only (defaultClassMap ++ classMap)"
  using assms by (simp add: parseJSX_def Let_def)

lemma parseJSX_wrapper_root:
  assumes "domParser (wrap jsx) = Some (ElementNode w wl wattrs kids)"
    and "findDOMParserError (ElementNode w wl wattrs kids) = None"
    and "length kids \<noteq> 1"
  shows "parseJSX domParser global jsx classMap
         = transformNode global (ElementNode w wl wattrs kids) (defaultClassMap ++ classMap)"
proof -
  have "(case kids of [only] \<Rightarrow> only | _ \<Rightarrow> ElementNode w wl wattrs kids)
        = ElementNode w wl wattrs kids"
    using assms(3) by (cases kids) (auto split: list.splits)
  then show ?thesis
    using assms(1,2) by (simp add: parseJSX_def Let_def)
qed

lemma get_prop_children:
  "get_prop (AList.update ''children'' children attributes) ''children'' = children"
  by (simp add: get_prop_def update_conv')

lemma lower_b: "\<not> equals_toUpperCase CHR ''b''"
  by (simp add: equals_toUpperCase_def)

lemma transformText_0: "transformText ''[[[0]]]'' = One (Idx 0)"
  by code_simp

lemma transformText_1: "transformText ''[[[1]]]'' = One (Idx 1)"
  by code_simp

text \<open>
  C9. \<open>parseJSX\<close> hands the parser the trimmed markup between \<open><DocumentFragment>\<close> and
  \<open></DocumentFragment>\<close>. When the parser returns that wrapper without an error node: if
  the wrapper has exactly one child, the result is the transform of that child; otherwise
  the result is the transform of the wrapper itself, a structured node whose name is the
  \<open>DocumentFragment\<close> entry of the class map (the built-in component unless the caller's
  map has that name) and whose children are the transformed children of the wrapper. The
  built-in \<open>DocumentFragment\<close>, rendered as a component, returns its children unchanged.
\<close>

theorem parseJSX_fragment_wrapper:
  assumes "domParser (''<DocumentFragment>'' @ trim jsx @ ''</DocumentFragment>'')
           = Some (ElementNode w ''DocumentFragment'' wattrs kids)"
    and "findDOMParserError (ElementNode w ''DocumentFragment'' wattrs kids) = None"
  shows "(\<forall>only. kids = [only] \<longrightarrow>
            parseJSX domParser global jsx classMap
            = transformNode global only (defaultClassMap ++ classMap))
       \<and> (length kids \<noteq> 1 \<longrightarrow>
            parseJSX domParser global jsx classMap
            = (case transformNodes global kids (defaultClassMap ++ classMap) of
                 Inl e \<Rightarrow> Inl e
               | Inr childrenData \<Rightarrow>
                   Inr (Elem (Comp (case classMap ''DocumentFragment'' of
                                      Some f \<Rightarrow> f | None \<Rightarrow> DocumentFragment))
                             (transformAttributes wattrs) childrenData)))
       \<and> renderComponent DocumentFragment attributes children now = Inr children"
proof (intro conjI allI impI)
  fix only assume "kids = [only]"
  with assms show "parseJSX domParser global jsx classMap
            = transformNode global only (defaultClassMap ++ classMap)"
    by (simp add: parseJSX_single_root wrap_def)
next
  assume "length kids \<noteq> 1"
  with assms have "parseJSX domParser global jsx classMap
     = transformNode global (ElementNode w ''DocumentFragment'' wattrs kids)
         (defaultClassMap ++ classMap)"
    by (simp add: parseJSX_wrapper_root wrap_def)
  also have "\<dots> = (case transformNodes global kids (defaultClassMap ++ classMap) of
                 Inl e \<Rightarrow> Inl e
               | Inr childrenData \<Rightarrow>
                   Inr (Elem (Comp (case classMap ''DocumentFragment'' of
                                      Some f \<Rightarrow> f | None \<Rightarrow> DocumentFragment))
                             (transformAttributes wattrs) childrenData))"
    by (simp add: equals_toUpperCase_def read_class_def map_add_def defaultClassMap_def
        split: option.splits)
  finally show "parseJSX domParser global jsx classMap
            = (case transformNodes global kids (defaultClassMap ++ classMap) of
                 Inl e \<Rightarrow> Inl e
               | Inr childrenData \<Rightarrow>
                   Inr (Elem (Comp (case classMap ''DocumentFragment'' of
                                      Some f \<Rightarrow> f | None \<Rightarrow> DocumentFragment))
                             (transformAttributes wattrs) childrenData))" .
next
  show "renderComponent DocumentFragment attributes children now = Inr children"
    by (simp add: renderComponent_def DocumentFragment_def get_prop_children)
qed

theorem parseJSX_fragment_wrapper_witness:
  "parseJSX (\<lambda>s. if s = ''<DocumentFragment><Bold>[[[0]]]</Bold><Bold>[[[1]]]</Bold></DocumentFragment>''
                  then Some (ElementNode ''DocumentFragment'' ''DocumentFragment'' []
                          [ElementNode ''Bold'' ''Bold'' [] [TextNode ''[[[0]]]''],
                           ElementNode ''Bold'' ''Bold'' [] [TextNode ''[[[1]]]'']])
                  else None)
            Map.empty '' <Bold>[[[0]]]</Bold><Bold>[[[1]]]</Bold>'' [''Bold'' \<mapsto> Bold]
   = Inr (Elem (Comp DocumentFragment) []
            [Elem (Comp Bold) [] [Leaf (Idx 0)], Elem (Comp Bold) [] [Leaf (Idx 1)]])
   \<and> renderComponent DocumentFragment [] (Str ''<b>One</b><b>Two</b>'') 0
     = Inr (Str ''<b>One</b><b>Two</b>'')
   \<and> parseJSX (\<lambda>s. if s = ''<DocumentFragment><b>[[[0]]]</b></DocumentFragment>''
                  then Some (ElementNode ''DocumentFragment'' ''DocumentFragment'' []
                          [ElementNode ''b'' ''b'' [] [TextNode ''[[[0]]]'']])
                  else None)
            Map.empty ''<b>[[[0]]]</b>'' Map.empty
   = Inr (Elem (Tag ''b'') [] [Leaf (Idx 0)])"
proof -
  let ?kids = "[ElementNode ''Bold'' ''Bold'' [] [TextNode ''[[[0]]]''],
                ElementNode ''Bold'' ''Bold'' [] [TextNode ''[[[1]]]'']]"
  let ?P = "\<lambda>s. if s = ''<DocumentFragment><Bold>[[[0]]]</Bold><Bold>[[[1]]]</Bold></DocumentFragment>''
                  then Some (ElementNode ''DocumentFragment'' ''DocumentFragment'' [] ?kids)
                  else None"
  let ?jsx = "'' <Bold>[[[0]]]</Bold><Bold>[[[1]]]</Bold>''"
  have t: "trim ?jsx = ''<Bold>[[[0]]]</Bold><Bold>[[[1]]]</Bold>''"
    by (simp add: trim_def is_space_def)
  have p: "?P (''<DocumentFragment>'' @ trim ?jsx @ ''</DocumentFragment>'')
           = Some (ElementNode ''DocumentFragment'' ''DocumentFragment'' [] ?kids)"
    unfolding t by simp
  have e: "findDOMParserError (ElementNode ''DocumentFragment'' ''DocumentFragment'' [] ?kids) = None"
    by (simp add: findDOMParserError_def first_child_def isErrorNode_def)
  have k: "transformNodes Map.empty ?kids (defaultClassMap ++ [''Bold'' \<mapsto> Bold])
           = Inr [Elem (Comp Bold) [] [Leaf (Idx 0)], Elem (Comp Bold) [] [Leaf (Idx 1)]]"
    by (simp add: equals_toUpperCase_def read_class_def transformAttributes_def
        transformText_0 transformText_1)
  let ?one = "[ElementNode ''b'' ''b'' [] [TextNode ''[[[0]]]'']]"
  let ?Q = "\<lambda>s. if s = ''<DocumentFragment><b>[[[0]]]</b></DocumentFragment>''
                  then Some (ElementNode ''DocumentFragment'' ''DocumentFragment'' [] ?one)
                  else None"
  have t': "trim ''<b>[[[0]]]</b>'' = ''<b>[[[0]]]</b>''"
    by (simp add: trim_def is_space_def)
  have q: "?Q (''<DocumentFragment>'' @ trim ''<b>[[[0]]]</b>'' @ ''</DocumentFragment>'')
           = Some (ElementNode ''DocumentFragment'' ''DocumentFragment'' [] ?one)"
    unfolding t' by simp
  have e': "findDOMParserError (ElementNode ''DocumentFragment'' ''DocumentFragment'' [] ?one) = None"
    by (simp add: findDOMParserError_def first_child_def isErrorNode_def)
  have b: "transformNode Map.empty (ElementNode ''b'' ''b'' [] [TextNode ''[[[0]]]''])
             (defaultClassMap ++ Map.empty) = Inr (Elem (Tag ''b'') [] [Leaf (Idx 0)])"
    by (simp add: lower_b transformAttributes_def transformText_0)
  from parseJSX_fragment_wrapper [where domParser = "?P" and jsx = "?jsx", OF p e,
      of Map.empty "[''Bold'' \<mapsto> Bold]" "[]" "Str ''<b>One</b><b>Two</b>''" 0] k
    parseJSX_fragment_wrapper [where domParser = "?Q" and jsx = "''<b>[[[0]]]</b>''", OF q e',
      of Map.empty Map.empty "[]" Undefined 0] b
  show ?thesis by (simp add: transformAttributes_def)
qed

text \<open>
  C10. The class map that \<open>parseJSX\<close> resolves a capitalised name with is the built-in
  defaults \<open>DocumentFragment\<close>, \<open>DocumentType\<close> and \<open>ProcessingInstruction\<close> overlaid by the
  caller's map (a map of components with no property \<open>__proto__\<close> of its own). For a root
  element whose local name starts with an uppercase letter, the name of the node is the
  caller's component when the caller's map has the name, even a built-in name; otherwise
  the built-in component when the name is one of the three; otherwise, and only then,
  what the global object binds the name to, a function as a component and any other truthy
  value as it is (a string as a tag name); and with none of these the parse throws.
\<close>

theorem parseJSX_class_map_precedence:
  assumes "domParser (wrap jsx)
           = Some (ElementNode w wl wattrs [ElementNode q (c # cs) attrs kids])"
    and "findDOMParserError (ElementNode w wl wattrs [ElementNode q (c # cs) attrs kids]) = None"
    and "is_upper c"
    and "classMap ''__proto__'' = None"
    and "transformNodes global kids (defaultClassMap ++ classMap) = Inr childrenData"
  shows "parseJSX domParser global jsx classMap =
     (case classMap (c # cs) of
        Some f \<Rightarrow> Inr (Elem (Comp f) (transformAttributes attrs) childrenData)
      | None \<Rightarrow>
         (if c # cs = ''DocumentFragment''
          then Inr (Elem (Comp DocumentFragment) (transformAttributes attrs) childrenData)
          else if c # cs = ''DocumentType''
          then Inr (Elem (Comp DocumentType) (transformAttributes attrs) childrenData)
          else if c # cs = ''ProcessingInstruction''
          then Inr (Elem (Comp ProcessingInstruction) (transformAttributes attrs) childrenData)
          else (case global (c # cs) of
                  Some (Function h) \<Rightarrow>
                    Inr (Elem (Comp h) (transformAttributes attrs) childrenData)
                | Some (Value v) \<Rightarrow>
                    (if truthy_value v
                     then Inr (Elem (name_of_value v) (transformAttributes attrs) childrenData)
                     else Inl (Thrown (Str (not_found_message (c # cs)))))
                | None \<Rightarrow> Inl (Thrown (Str (not_found_message (c # cs)))))))"
proof -
  have "parseJSX domParser global jsx classMap =
      transformNode global (ElementNode q (c # cs) attrs kids) (defaultClassMap ++ classMap)"
    using assms(1,2) by (rule parseJSX_single_root)
  also have "\<dots> =
     (case classMap (c # cs) of
        Some f \<Rightarrow> Inr (Elem (Comp f) (transformAttributes attrs) childrenData)
      | None \<Rightarrow>
         (if c # cs = ''DocumentFragment''
          then Inr (Elem (Comp DocumentFragment) (transformAttributes attrs) childrenData)
          else if c # cs = ''DocumentType''
          then Inr (Elem (Comp DocumentType) (transformAttributes attrs) childrenData)
          else if c # cs = ''ProcessingInstruction''
          then Inr (Elem (Comp ProcessingInstruction) (transformAttributes attrs) childrenData)
          else (case global (c # cs) of
                  Some (Function h) \<Rightarrow>
                    Inr (Elem (Comp h) (transformAttributes attrs) childrenData)
                | Some (Value v) \<Rightarrow>
                    (if truthy_value v
                     then Inr (Elem (name_of_value v) (transformAttributes attrs) childrenData)
                     else Inl (Thrown (Str (not_found_message (c # cs)))))
                | None \<Rightarrow> Inl (Thrown (Str (not_found_message (c # cs)))))))"
    using assms(3,5)
    by (simp add: upper_equals_toUpperCase read_class_upper map_add_def defaultClassMap_def
        split: option.splits binding.splits)
  finally show ?thesis .
qed

theorem parseJSX_class_map_precedence_witness:
  "parseJSX (\<lambda>s. Some (ElementNode ''DocumentFragment'' ''DocumentFragment'' []
                          [ElementNode ''DocumentType'' ''DocumentType'' [] []]))
            [''DocumentType'' \<mapsto> Function DocumentFragment] [] [''DocumentType'' \<mapsto> Bold]
   = Inr (Elem (Comp Bold) [] [])
   \<and> parseJSX (\<lambda>s. Some (ElementNode ''DocumentFragment'' ''DocumentFragment'' []
                          [ElementNode ''ProcessingInstruction'' ''ProcessingInstruction'' [] []]))
            [''ProcessingInstruction'' \<mapsto> Function Bold] [] Map.empty
   = Inr (Elem (Comp ProcessingInstruction) [] [])
   \<and> parseJSX (\<lambda>s. Some (ElementNode ''DocumentFragment'' ''DocumentFragment'' []
                          [ElementNode ''Bold'' ''Bold'' [] []]))
            [''Bold'' \<mapsto> Function Bold] [] Map.empty
   = Inr (Elem (Comp Bold) [] [])
   \<and> parseJSX (\<lambda>s. Some (ElementNode ''DocumentFragment'' ''DocumentFragment'' []
                          [ElementNode ''Math'' ''Math'' [] []]))
            [''Math'' \<mapsto> Value (Obj [])] [] Map.empty
   = Inr (Elem (Other (Obj [])) [] [])"
proof -
  have e: "findDOMParserError (ElementNode ''DocumentFragment'' ''DocumentFragment'' []
             [ElementNode q l [] []]) = None" if "q \<noteq> ''parsererror''" for q l
    using that by (simp add: findDOMParserError_def first_child_def isErrorNode_def)
  have u: "is_upper CHR ''D''" "is_upper CHR ''P''" "is_upper CHR ''B''" "is_upper CHR ''M''"
    by (simp_all add: is_upper_def)
  have a: "transformAttributes [] = []"
    by (simp add: transformAttributes_def)
  have 1: "parseJSX (\<lambda>s. Some (ElementNode ''DocumentFragment'' ''DocumentFragment'' []
                          [ElementNode ''DocumentType'' ''DocumentType'' [] []]))
            [''DocumentType'' \<mapsto> Function DocumentFragment] [] [''DocumentType'' \<mapsto> Bold]
           = Inr (Elem (Comp Bold) [] [])"
    using parseJSX_class_map_precedence
      [of "\<lambda>s. Some (ElementNode ''DocumentFragment'' ''DocumentFragment'' []
                          [ElementNode ''DocumentType'' ''DocumentType'' [] []])"
          "[]" "''DocumentFragment''" "''DocumentFragment''" "[]" "''DocumentType''"
          "CHR ''D''" "''ocumentType''" "[]" "[]" "[''DocumentType'' \<mapsto> Bold]"
          "[''DocumentType'' \<mapsto> Function DocumentFragment]" "[]"]
    by (simp add: e u a)
  have 2: "parseJSX (\<lambda>s. Some (ElementNode ''DocumentFragment'' ''DocumentFragment'' []
                          [ElementNode ''ProcessingInstruction'' ''ProcessingInstruction'' [] []]))
            [''ProcessingInstruction'' \<mapsto> Function Bold] [] Map.empty
           = Inr (Elem (Comp ProcessingInstruction) [] [])"
    using parseJSX_class_map_precedence
      [of "\<lambda>s. Some (ElementNode ''DocumentFragment'' ''DocumentFragment'' []
                  [ElementNode ''ProcessingInstruction'' ''ProcessingInstruction'' [] []])"
          "[]" "''DocumentFragment''" "''DocumentFragment''" "[]" "''ProcessingInstruction''"
          "CHR ''P''" "''rocessingInstruction''" "[]" "[]" Map.empty
          "[''ProcessingInstruction'' \<mapsto> Function Bold]" "[]"]
    by (simp add: e u a)
  have 3: "parseJSX (\<lambda>s. Some (ElementNode ''DocumentFragment'' ''DocumentFragment'' []
                          [ElementNode ''Bold'' ''Bold'' [] []]))
            [''Bold'' \<mapsto> Function Bold] [] Map.empty
           = Inr (Elem (Comp Bold) [] [])"
    using parseJSX_class_map_precedence
      [of "\<lambda>s. Some (ElementNode ''DocumentFragment'' ''DocumentFragment'' []
                  [ElementNode ''Bold'' ''Bold'' [] []])"
          "[]" "''DocumentFragment''" "''DocumentFragment''" "[]" "''Bold''"
          "CHR ''B''" "''old''" "[]" "[]" Map.empty "[''Bold'' \<mapsto> Function Bold]" "[]"]
    by (simp add: e u a)
  have 4: "parseJSX (\<lambda>s. Some (ElementNode ''DocumentFragment'' ''DocumentFragment'' []
                          [ElementNode ''Math'' ''Math'' [] []]))
            [''Math'' \<mapsto> Value (Obj [])] [] Map.empty
           = Inr (Elem (Other (Obj [])) [] [])"
    using parseJSX_class_map_precedence
      [of "\<lambda>s. Some (ElementNode ''DocumentFragment'' ''DocumentFragment'' []
                  [ElementNode ''Math'' ''Math'' [] []])"
          "[]" "''DocumentFragment''" "''DocumentFragment''" "[]" "''Math''"
          "CHR ''M''" "''ath''" "[]" "[]" Map.empty "[''Math'' \<mapsto> Value (Obj [])]" "[]"]
    by (simp add: e u a)
  from 1 2 3 4 show ?thesis by simp
qed

section \<open>Template cache\<close>

text \<open>
  C7. When \<open>parseAndCache\<close> ends in an error, the parse was run and failed with that
  error, the cache is returned unchanged, and any later call for the same identity, with
  whatever parser, bindings and class map, runs the parse again: it returns what that
  parse returns and stores the tree only if that parse succeeds.
\<close>

theorem parseAndCache_failure_not_stored:
  assumes "parseAndCache domParser global strings classMap cache = (Inl e, cache')"
  shows "cache' = cache
       \<and> parse domParser global (segments strings) classMap = Inl e
       \<and> (\<forall>domParser' global' classMap' again.
            identity again = identity strings \<longrightarrow>
            parseAndCache domParser' global' again classMap' cache'
            = (case parse domParser' global' (segments again) classMap' of
                 Inl e' \<Rightarrow> (Inl e', cache')
               | Inr data \<Rightarrow> (Inr data, cache'(identity strings \<mapsto> data))))"
proof -
  from assms have c: "cache' = cache"
    by (auto simp add: parseAndCache_def Let_def split: option.splits sum.splits if_splits)
  from assms have f: "parse domParser global (segments strings) classMap = Inl e"
    by (auto simp add: parseAndCache_def Let_def split: option.splits sum.splits if_splits)
  from assms have m: "case cache (identity strings) of None \<Rightarrow> True | Some d \<Rightarrow> \<not> truthy d"
    by (auto simp add: parseAndCache_def Let_def split: option.splits sum.splits if_splits)
  from c f m show ?thesis
    by (auto simp add: parseAndCache_def Let_def split: option.splits sum.splits)
qed

theorem parseAndCache_failure_not_stored_witness:
  "parseAndCache (\<lambda>s. Some (ElementNode ''DocumentFragment'' ''DocumentFragment'' []
                               [ElementNode ''Foo'' ''Foo'' [] [TextNode ''[[[0]]]'']]))
        Map.empty \<lparr>identity = 7, segments = [''<Foo>'', ''</Foo>'']\<rparr> Map.empty Map.empty
     = (Inl (Thrown (Str (not_found_message ''Foo''))), Map.empty)
   \<and> parseAndCache (\<lambda>s. Some (ElementNode ''DocumentFragment'' ''DocumentFragment'' []
                               [ElementNode ''Foo'' ''Foo'' [] [TextNode ''[[[0]]]'']]))
        [''Foo'' \<mapsto> Function Bold] \<lparr>identity = 7, segments = [''<Foo>'', ''</Foo>'']\<rparr> Map.empty Map.empty
     = (Inr (Elem (Comp Bold) [] [Leaf (Idx 0)]), [7 \<mapsto> Elem (Comp Bold) [] [Leaf (Idx 0)]])"
proof -
  let ?s = "\<lparr>identity = 7, segments = [''<Foo>'', ''</Foo>'']\<rparr>"
  let ?P = "\<lambda>s::string. Some (ElementNode ''DocumentFragment'' ''DocumentFragment'' []
                               [ElementNode ''Foo'' ''Foo'' [] [TextNode ''[[[0]]]'']])"
  have u: "equals_toUpperCase CHR ''F''"
    by (simp add: equals_toUpperCase_def)
  have i: "inherited ''Foo'' = None"
    by (simp add: inherited_def)
  have a: "parseAndCache ?P Map.empty ?s Map.empty Map.empty
           = (Inl (Thrown (Str (not_found_message ''Foo''))), Map.empty)"
    by (simp add: parseAndCache_def parse_def parseJSX_def findDOMParserError_def first_child_def
        isErrorNode_def u i read_class_def defaultClassMap_def)
  have b: "parse ?P [''Foo'' \<mapsto> Function Bold] (segments ?s) Map.empty
           = Inr (Elem (Comp Bold) [] [Leaf (Idx 0)])"
    by (simp add: parse_def parseJSX_def findDOMParserError_def first_child_def isErrorNode_def
        u i read_class_def defaultClassMap_def transformAttributes_def transformText_0)
  from parseAndCache_failure_not_stored [OF a] a b
  show ?thesis by simp
qed

section \<open>Attribute resolver\<close>

lemma conversion_errors:
  shows "to_string v = Inl e \<Longrightarrow> e = TypeError"
    and "join sep xs = Inl e \<Longrightarrow> e = TypeError"
    and "join_element w = Inl e \<Longrightarrow> e = TypeError"
proof (induction v and sep xs and w arbitrary: e and e and e
    rule: to_string_join_join_element.induct)
  case (8 kvs)
  then show ?case by (simp split: option.splits)
next
  case (12 sep x y xs)
  then show ?case by (simp split: sum.splits)
qed simp_all

lemma join_Cons:
  "join sep (x # xs)
   = (if xs = [] then join_element x
      else (case join_element x of
              Inl e \<Rightarrow> Inl e
            | Inr s \<Rightarrow> (case join sep xs of Inl e \<Rightarrow> Inl e | Inr r \<Rightarrow> Inr (s @ sep @ r))))"
  by (cases xs) (simp_all split: sum.splits)

lemma join_empty_separator:
  "join [] vs
   = (if \<exists>v\<in>set vs. isl (join_element v) then Inl TypeError
      else Inr (concat (map (\<lambda>v. projr (join_element v)) vs)))"
proof (induction vs)
  case Nil
  then show ?case by simp
next
  case (Cons x xs)
  show ?case
  proof (cases "join_element x")
    case (Inl e)
    then have "e = TypeError" by (rule conversion_errors(3))
    with Inl show ?thesis by (simp add: join_Cons)
  next
    case (Inr s)
    with Cons.IH show ?thesis by (simp add: join_Cons)
  qed
qed

lemma render_item_text:
  "render_item text_renderers substitutions i
   = Inr (case i of Lit s \<Rightarrow> Str s | Idx n \<Rightarrow> subs_at substitutions n)"
  by (cases i) (simp_all add: text_renderers_def renderValueToText_def)

lemma render_parts_text:
  "render_parts substitutions parts
   = Inr (map (\<lambda>p. case p of Lit s \<Rightarrow> Str s | Idx n \<Rightarrow> subs_at substitutions n) parts)"
  by (induction parts) (simp_all add: render_item_text)

lemma join_element_part:
  "join_element (case p of Lit s \<Rightarrow> Str s | Idx n \<Rightarrow> subs_at substitutions n)
   = part_text substitutions p"
  by (cases p) simp_all

lemma join_parts:
  "join [] (map (\<lambda>p. case p of Lit s \<Rightarrow> Str s | Idx n \<Rightarrow> subs_at substitutions n) parts)
   = (if \<exists>p\<in>set parts. isl (part_text substitutions p) then Inl TypeError
      else Inr (concat (map (\<lambda>p. projr (part_text substitutions p)) parts)))"
  by (simp add: join_empty_separator join_element_part comp_def)

lemma update_fresh:
  "k \<notin> fst ` set al \<Longrightarrow> AList.update k v al = al @ [(k, v)]"
  by (induction al) auto

text \<open>What one attribute resolves to: lines 274--278 for one value.\<close>

lemma resolve_entries_Cons:
  "resolve_entries resolved ((name, v) # rest) substitutions
   = (case v of
        Seq parts \<Rightarrow>
          (if \<exists>p\<in>set parts. isl (part_text substitutions p) then Inl TypeError
           else resolve_entries
                  (assign name (Str (concat (map (\<lambda>p. projr (part_text substitutions p)) parts)))
                     resolved) rest substitutions)
      | One (Lit s) \<Rightarrow> resolve_entries (assign name (Str s) resolved) rest substitutions
      | One (Idx i) \<Rightarrow>
          resolve_entries (assign name (subs_at substitutions i) resolved) rest substitutions)"
  by (simp add: render_parts_text render_item_text join_parts split: text_data.splits item.splits)

lemma resolve_entries_converted:
  assumes "distinct (map fst attributesData)"
    and "''__proto__'' \<notin> fst ` set attributesData"
    and "fst ` set resolved \<inter> fst ` set attributesData = {}"
    and "\<forall>(name, v)\<in>set attributesData. \<forall>parts. v = Seq parts \<longrightarrow>
           (\<forall>p\<in>set parts. \<not> isl (part_text substitutions p))"
  shows "resolve_entries resolved attributesData substitutions
   = Inr (resolved @ map (\<lambda>(name, v). (name,
             case v of
               Seq parts \<Rightarrow> Str (concat (map (\<lambda>p. projr (part_text substitutions p)) parts))
             | One (Lit s) \<Rightarrow> Str s
             | One (Idx i) \<Rightarrow> subs_at substitutions i)) attributesData)"
  using assms
proof (induction attributesData arbitrary: resolved)
  case Nil
  then show ?case by simp
next
  case (Cons a rest)
  obtain name v where a: "a = (name, v)" by (cases a)
  from Cons.prems a have fresh: "name \<notin> fst ` set resolved" and np: "name \<noteq> ''__proto__''"
    by auto
  have d: "distinct (map fst rest)" and p: "''__proto__'' \<notin> fst ` set rest"
    using Cons.prems by simp_all
  have i: "\<And>r. fst ` set (resolved @ [(name, r)]) \<inter> fst ` set rest = {}"
    using Cons.prems a by auto
  have c: "\<forall>(name, v)\<in>set rest. \<forall>parts. v = Seq parts \<longrightarrow>
           (\<forall>p\<in>set parts. \<not> isl (part_text substitutions p))"
    using Cons.prems(4) by simp
  have h: "\<And>parts. v = Seq parts \<Longrightarrow> \<not> (\<exists>p\<in>set parts. isl (part_text substitutions p))"
    using Cons.prems(4) a by simp
  show ?case
    using fresh np h
    by (cases v) (simp_all add: a resolve_entries_Cons assign_def update_fresh
        Cons.IH [OF d p i c] del: resolve_entries.simps(2) split: item.splits)
qed

lemma resolve_entries_unconverted:
  assumes "\<exists>(name, v)\<in>set attributesData. \<exists>parts. v = Seq parts \<and>
           (\<exists>p\<in>set parts. isl (part_text substitutions p))"
  shows "resolve_entries resolved attributesData substitutions = Inl TypeError"
  using assms
proof (induction attributesData arbitrary: resolved)
  case Nil
  then show ?case by simp
next
  case (Cons a rest)
  obtain name v where a: "a = (name, v)" by (cases a)
  show ?case
  proof (cases "\<exists>parts. v = Seq parts \<and> (\<exists>p\<in>set parts. isl (part_text substitutions p))")
    case True
    then show ?thesis
      by (auto simp add: a resolve_entries_Cons simp del: resolve_entries.simps(2))
  next
    case False
    with Cons.prems a have "\<exists>(name, v)\<in>set rest. \<exists>parts. v = Seq parts \<and>
           (\<exists>p\<in>set parts. isl (part_text substitutions p))"
      by auto
    then have "\<And>r. resolve_entries r rest substitutions = Inl TypeError"
      by (rule Cons.IH)
    with False show ?thesis
      by (cases v) (auto simp add: a resolve_entries_Cons simp del: resolve_entries.simps(2)
          split: item.splits)
  qed
qed

text \<open>
  C8 (as amended). Take an attributes object (its names are distinct, none is
  \<open>__proto__\<close> and none starts with a digit) and a substitution array whose numbers are
  integers that JavaScript prints digit by digit. \<open>resolveAttributes\<close> has nothing to wait for. If every substitution
  that is a part of a multi-part attribute can be converted to a string, it returns the
  same names in the same order: a multi-part attribute resolves to a string, the
  concatenation, in order, of its literal parts and of its substitutions as \<open>join\<close> prints
  them; a single literal resolves to that string; a single index resolves to the
  substitution at that index itself, whatever kind of value it is. If some such
  substitution cannot be converted (a symbol, an object with a \<open>toString\<close> that is no
  function), it throws a type error.
\<close>

theorem resolveAttributes_values:
  assumes "distinct (map fst attributesData)"
    and "''__proto__'' \<notin> fst ` set attributesData"
    and "\<forall>name\<in>fst ` set attributesData. \<forall>c cs. name = c # cs \<longrightarrow> \<not> is_digit c"
    and "\<forall>v\<in>set substitutions. plain_numbers v"
  shows "((\<forall>(name, v)\<in>set attributesData. \<forall>parts. v = Seq parts \<longrightarrow>
            (\<forall>p\<in>set parts. \<not> isl (part_text substitutions p))) \<longrightarrow>
          resolveAttributes attributesData substitutions
          = Inr (map (\<lambda>(name, v). (name,
                   case v of
                     Seq parts \<Rightarrow>
                       Str (concat (map (\<lambda>p. projr (part_text substitutions p)) parts))
                   | One (Lit s) \<Rightarrow> Str s
                   | One (Idx i) \<Rightarrow> subs_at substitutions i)) attributesData))
       \<and> ((\<exists>(name, v)\<in>set attributesData. \<exists>parts. v = Seq parts \<and>
            (\<exists>p\<in>set parts. isl (part_text substitutions p))) \<longrightarrow>
          resolveAttributes attributesData substitutions = Inl TypeError)"
proof (intro conjI impI)
  assume "\<forall>(name, v)\<in>set attributesData. \<forall>parts. v = Seq parts \<longrightarrow>
            (\<forall>p\<in>set parts. \<not> isl (part_text substitutions p))"
  with assms(1,2) show "resolveAttributes attributesData substitutions
          = Inr (map (\<lambda>(name, v). (name,
                   case v of
                     Seq parts \<Rightarrow>
                       Str (concat (map (\<lambda>p. projr (part_text substitutions p)) parts))
                   | One (Lit s) \<Rightarrow> Str s
                   | One (Idx i) \<Rightarrow> subs_at substitutions i)) attributesData)"
    using resolve_entries_converted [of attributesData "[]" substitutions]
    by (simp add: resolveAttributes_def)
next
  assume "\<exists>(name, v)\<in>set attributesData. \<exists>parts. v = Seq parts \<and>
            (\<exists>p\<in>set parts. isl (part_text substitutions p))"
  then show "resolveAttributes attributesData substitutions = Inl TypeError"
    unfolding resolveAttributes_def by (rule resolve_entries_unconverted)
qed

theorem resolveAttributes_values_witness:
  "resolveAttributes
      [(''class'', Seq [Idx 0, Lit '' bar'']), (''id'', One (Lit ''x'')), (''name'', One (Idx 1))]
      [Str ''foo'', Obj [(''first'', Str ''Jane'')]]
   = Inr [(''class'', Str ''foo bar''), (''id'', Str ''x''),
          (''name'', Obj [(''first'', Str ''Jane'')])]
   \<and> resolveAttributes [(''class'', Seq [Idx 0, Lit '' bar''])] [Symbol ''s''] = Inl TypeError"
proof -
  let ?attrs = "[(''class'', Seq [Idx 0, Lit '' bar'']), (''id'', One (Lit ''x'')),
                 (''name'', One (Idx 1))]"
  let ?subs = "[Str ''foo'', Obj [(''first'', Str ''Jane'')]]"
  have d: "distinct (map fst ?attrs)" "distinct (map fst [(''class'', Seq [Idx 0, Lit '' bar''])])"
    by simp_all
  have n: "''__proto__'' \<notin> fst ` set ?attrs"
    "''__proto__'' \<notin> fst ` set [(''class'', Seq [Idx 0, Lit '' bar''])]"
    by simp_all
  have s: "\<forall>v\<in>set ?subs. plain_numbers v" "\<forall>v\<in>set [Symbol ''s'']. plain_numbers v"
    by simp_all
  have g: "\<forall>name\<in>fst ` set ?attrs. \<forall>c cs. name = c # cs \<longrightarrow> \<not> is_digit c"
    "\<forall>name\<in>fst ` set [(''class'', Seq [Idx 0, Lit '' bar''])].
       \<forall>c cs. name = c # cs \<longrightarrow> \<not> is_digit c"
    by (simp_all add: is_digit_def)
  from resolveAttributes_values [OF d(1) n(1) g(1) s(1)]
    resolveAttributes_values [OF d(2) n(2) g(2) s(2)]
  show ?thesis by (simp add: subs_at_def)
qed

text \<open>
  C8 as stated fails: the attribute \<open>name\<close> of the test that passes an object to a
  component, the single index 0, resolves to the object substituted, which is no string.
\<close>

theorem resolveAttributes_string_counterexample:
  "resolveAttributes [(''name'', One (Idx 0))]
      [Obj [(''first'', Str ''Jane''), (''last'', Str ''Doe'')]]
   = Inr [(''name'', Obj [(''first'', Str ''Jane''), (''last'', Str ''Doe'')])]
   \<and> \<not> is_string (Obj [(''first'', Str ''Jane''), (''last'', Str ''Doe'')])"
  by (simp add: resolveAttributes_def text_renderers_def renderValueToText_def subs_at_def
      assign_def)

section \<open>Static subtrees\<close>

text \<open>
  C3 on the input of the test "flattens nodes with no substitutions": the static elements
  \<open>img\<close> and \<open>i\<close> stay structured nodes among the children of \<open>div\<close>; they are not merged
  into one literal string.
\<close>

theorem transformNode_keeps_static_elements:
  "transformNode Map.empty
     (ElementNode ''div'' ''div'' []
        [ElementNode ''img'' ''img'' [(''src'', ''foo.jpg'')] [],
         ElementNode ''i'' ''i'' [] [TextNode ''Hello, ''],
         ElementNode ''b'' ''b'' [] [TextNode ''[[[0]]]'']])
     defaultClassMap
   = Inr (Elem (Tag ''div'') []
            [Elem (Tag ''img'') [(''src'', One (Lit ''foo.jpg''))] [],
             Elem (Tag ''i'') [] [Leaf (Lit ''Hello, '')],
             Elem (Tag ''b'') [] [Leaf (Idx 0)]])"
proof -
  have u: "\<not> equals_toUpperCase CHR ''d''" "\<not> equals_toUpperCase CHR ''i''"
    by (simp_all add: equals_toUpperCase_def)
  have t: "transformText ''foo.jpg'' = One (Lit ''foo.jpg'')"
    "transformText ''Hello, '' = One (Lit ''Hello, '')"
    by code_simp+
  show ?thesis
    by (simp add: u lower_b t transformText_0 transformAttributes_def assign_def)
qed

section \<open>Children: order and waiting\<close>

lemma list_update_map_upt:
  "i < n \<Longrightarrow> (map f [0..<n])[i := v] = map (f(i := v)) [0..<n]"
  by (rule nth_equalityI) (auto simp add: nth_list_update)

lemma distinct_below_length:
  assumes "distinct js" and "set js \<subseteq> {..<n}"
  shows "length js \<le> n"
proof -
  have "card (set js) \<le> card {..<n}"
    using assms(2) by (intro card_mono) auto
  then show ?thesis
    using assms(1) by (simp add: distinct_card)
qed

lemma distinct_full:
  assumes "distinct js" and "set js \<subseteq> {..<n}" and "length js = n"
  shows "set js = {..<n}"
proof -
  have "card (set js) = card {..<n}"
    using assms(1,3) by (simp add: distinct_card)
  then show ?thesis
    using assms(2) by (intro card_subset_eq) auto
qed

lemma fold_all_step:
  assumes "distinct js" and "set js \<subseteq> {..<n}" and "length ps = n" and "0 < n"
    and "\<forall>p\<in>set ps. is_fulfilled p"
  shows "fold (all_step ps) js (all_init now n)
   = \<lparr>slots = map (\<lambda>j. if j \<in> set js then fulfilled_value (ps ! j) else Undefined) [0..<n],
      remaining = n - length js,
      combined = (if length js = n
                  then Fulfilled (settle_tick (ps ! last js)) (Arr (map fulfilled_value ps))
                  else Pending)\<rparr>"
  using assms(1,2)
proof (induction js rule: rev_induct)
  case Nil
  then show ?case
    using assms(4) by (simp add: all_init_def map_replicate_const)
next
  case (snoc i js)
  from snoc.prems have d: "distinct js" and s: "set js \<subseteq> {..<n}" and i: "i < n"
    and fresh: "i \<notin> set js"
    by auto
  from snoc.prems have "length (js @ [i]) \<le> n"
    by (rule distinct_below_length)
  then have short: "length js < n" by simp
  from i assms(3,5) have "is_fulfilled (ps ! i)" by simp
  then obtain t v where pi: "ps ! i = Fulfilled t v"
    by (cases "ps ! i") simp_all
  have slots: "(map (\<lambda>j. if j \<in> set js then fulfilled_value (ps ! j) else Undefined) [0..<n])[i := v]
     = map (\<lambda>j. if j \<in> set (js @ [i]) then fulfilled_value (ps ! j) else Undefined) [0..<n]"
    using i pi by (simp add: list_update_map_upt fun_upd_def cong: if_cong) 
  have full: "map (\<lambda>j. if j \<in> set (js @ [i]) then fulfilled_value (ps ! j) else Undefined) [0..<n]
     = map fulfilled_value ps" if "Suc (length js) = n"
  proof -
    from that snoc.prems have "set (js @ [i]) = {..<n}"
      by (intro distinct_full) simp_all
    then have "map (\<lambda>j. if j \<in> set (js @ [i]) then fulfilled_value (ps ! j) else Undefined) [0..<n]
       = map (\<lambda>j. fulfilled_value (ps ! j)) [0..<n]"
      by (intro map_cong) auto
    also have "\<dots> = map fulfilled_value (map ((!) ps) [0..<n])"
      by simp
    also have "\<dots> = map fulfilled_value ps"
      using assms(3) map_nth [of ps] by simp
    finally show ?thesis .
  qed
  let ?before = "\<lparr>slots = map (\<lambda>j. if j \<in> set js then fulfilled_value (ps ! j) else Undefined) [0..<n],
      remaining = n - length js, combined = Pending\<rparr>"
  have before: "fold (all_step ps) js (all_init now n) = ?before"
    using short by (simp add: snoc.IH [OF d s])
  have "fold (all_step ps) (js @ [i]) (all_init now n) = all_step ps i ?before"
    by (simp add: before)
  also have "\<dots> = \<lparr>slots = map (\<lambda>j. if j \<in> set (js @ [i]) then fulfilled_value (ps ! j)
                                     else Undefined) [0..<n],
      remaining = n - length js - 1,
      combined = (if n - length js - 1 = 0
                  then Fulfilled t (Arr (map (\<lambda>j. if j \<in> set (js @ [i])
                                                   then fulfilled_value (ps ! j)
                                                   else Undefined) [0..<n]))
                  else Pending)\<rparr>"
    unfolding all_step_def using pi slots by (simp add: Let_def del: set_append)
  also have "\<dots> = \<lparr>slots = map (\<lambda>j. if j \<in> set (js @ [i]) then fulfilled_value (ps ! j)
                                     else Undefined) [0..<n],
      remaining = n - length (js @ [i]),
      combined = (if length (js @ [i]) = n
                  then Fulfilled (settle_tick (ps ! last (js @ [i]))) (Arr (map fulfilled_value ps))
                  else Pending)\<rparr>"
  proof (cases "Suc (length js) = n")
    case True
    then show ?thesis
      using full [OF True] pi by (simp del: set_append)
  next
    case False
    then show ?thesis
      using short by (auto simp del: set_append)
  qed
  finally show ?case .
qed

lemma sorted_le_last: "sorted ys \<Longrightarrow> y \<in> set ys \<Longrightarrow> y \<le> last ys"
  by (induction ys) auto

lemma sorted_key_last_Max:
  assumes "sorted (map f js)" and "js \<noteq> []"
  shows "f (last js) = Max (f ` set js)"
proof -
  have "\<forall>y\<in>set (map f js). y \<le> last (map f js)"
    using assms(1) by (auto intro: sorted_le_last)
  then have "\<forall>y\<in>f ` set js. y \<le> f (last js)"
    using assms(2) by (simp add: last_map)
  moreover have "f (last js) \<in> f ` set js"
    using assms(2) by simp
  ultimately show ?thesis
    by (intro Max_eqI [symmetric]) auto
qed

lemma completion_order_fulfilled:
  assumes "\<forall>p\<in>set ps. is_fulfilled p"
  shows "completion_order ps = sort_key (\<lambda>i. settle_tick (ps ! i)) [0..<length ps]"
proof -
  have "ps ! i \<noteq> Pending" if "i < length ps" for i
  proof -
    from that assms have "is_fulfilled (ps ! i)" by simp
    then show ?thesis by auto
  qed
  then have "filter (\<lambda>i. ps ! i \<noteq> Pending) [0..<length ps] = [0..<length ps]"
    by (intro filter_True) simp
  then show ?thesis
    by (simp add: completion_order_def)
qed

lemma promise_all_fulfilled:
  assumes "xs \<noteq> []" and "\<forall>x\<in>set xs. is_fulfilled (as_promise now x)"
  shows "promise_all now xs
   = Fulfilled (Max (set (map (\<lambda>x. settle_tick (as_promise now x)) xs)))
               (Arr (map (\<lambda>x. fulfilled_value (as_promise now x)) xs))"
proof -
  let ?ps = "map (as_promise now) xs"
  let ?k = "\<lambda>i. settle_tick (?ps ! i)"
  let ?js = "sort_key ?k [0..<length ?ps]"
  have f: "\<forall>p\<in>set ?ps. is_fulfilled p"
    using assms(2) by simp
  have n: "0 < length ?ps"
    using assms(1) by simp
  have d: "distinct ?js" and s: "set ?js \<subseteq> {..<length ?ps}" and l: "length ?js = length ?ps"
    by auto
  have ne: "?js \<noteq> []"
    using n l by (metis length_0_conv less_numeral_extra(3))
  have "promise_all now xs = combined (fold (all_step ?ps) ?js (all_init now (length ?ps)))"
    by (simp add: promise_all_def Let_def completion_order_fulfilled [OF f])
  also have "\<dots> = Fulfilled (?k (last ?js)) (Arr (map fulfilled_value ?ps))"
    unfolding fold_all_step [OF d s refl n f] using l by simp
  also have "?k (last ?js) = Max (?k ` set ?js)"
    using ne by (intro sorted_key_last_Max) simp_all
  also have "?k ` set ?js = set (map settle_tick ?ps)"
  proof -
    have "?k ` set ?js = (\<lambda>i. settle_tick (?ps ! i)) ` {0..<length ?ps}"
      by simp
    also have "\<dots> = set (map (\<lambda>i. settle_tick (?ps ! i)) [0..<length ?ps])"
      by simp
    also have "map (\<lambda>i. settle_tick (?ps ! i)) [0..<length ?ps] = map settle_tick ?ps"
      by (intro nth_equalityI) simp_all
    finally show ?thesis .
  qed
  finally show ?thesis
    by (simp add: comp_def)
qed


lemma render_all_nth:
  assumes "render_all renderers substitutions now childrenData = Inr rendered"
  shows "length rendered = length childrenData
       \<and> (\<forall>i<length childrenData.
             render renderers substitutions now (childrenData ! i) = Inr (rendered ! i))"
  using assms
proof (induction childrenData arbitrary: rendered)
  case Nil
  then show ?case by simp
next
  case (Cons child rest)
  from Cons.prems obtain v vs where v: "render renderers substitutions now child = Inr v"
    and vs: "render_all renderers substitutions now rest = Inr vs" and r: "rendered = v # vs"
    by (auto split: sum.splits)
  from Cons.IH [OF vs] v r show ?case
    by (auto simp add: nth_Cons split: nat.splits)
qed

lemma fulfilled_not_before:
  "is_fulfilled (as_promise now x) \<Longrightarrow> now \<le> settle_tick (as_promise now x)"
  by (induction now x rule: as_promise.induct) simp_all

lemma renderChildren_sync:
  assumes "render_all renderers substitutions now childrenData = Inr rendered"
    and "\<not> list_ex is_promise rendered"
  shows "renderChildren renderers substitutions now childrenData
         = render_children renderers (Arr rendered) None"
  using assms by simp

lemma renderChildren_async:
  assumes "render_all renderers substitutions now childrenData = Inr rendered"
    and "list_ex is_promise rendered"
  shows "renderChildren renderers substitutions now childrenData
         = Inr (Promise (then_promise now (promise_all now rendered)
                  (\<lambda>children t. render_children renderers children (Some substitutions))))"
  using assms by simp

lemma renderChildren_all_fulfilled:
  assumes "render_all renderers substitutions now childrenData = Inr rendered"
    and "list_ex is_promise rendered"
    and "\<forall>x\<in>set rendered. is_fulfilled (as_promise now x)"
  shows "renderChildren renderers substitutions now childrenData
     = Inr (Promise
         (case render_children renderers
                 (Arr (map (\<lambda>x. fulfilled_value (as_promise now x)) rendered))
                 (Some substitutions) of
            Inl e \<Rightarrow> Rejected (Max (set (map (\<lambda>x. settle_tick (as_promise now x)) rendered))) e
          | Inr w \<Rightarrow> as_promise (Max (set (map (\<lambda>x. settle_tick (as_promise now x)) rendered))) w))"
proof -
  let ?T = "Max (set (map (\<lambda>x. settle_tick (as_promise now x)) rendered))"
  from assms(2) have ne: "rendered \<noteq> []"
    by auto
  then obtain x where x: "x \<in> set rendered"
    by (cases rendered) auto
  with assms(3) have "now \<le> settle_tick (as_promise now x)"
    by (simp add: fulfilled_not_before)
  also have "\<dots> \<le> ?T"
    using x by (intro Max_ge) auto
  finally have late: "max now ?T = ?T"
    by simp
  show ?thesis
    unfolding renderChildren_async [OF assms(1,2)] promise_all_fulfilled [OF ne assms(3)]
    by (simp only: then_promise.simps late)
qed

text \<open>
  C1. Let the children of a structured node all render without an exception. Then each
  child is rendered on its own, at the tick at which \<open>renderChildren\<close> is called, and the
  results stand in document order. If no result is a promise, \<open>renderChildren\<close> returns at
  once what \<open>renderers.children\<close> returns on the array of results. If some result is a
  promise, \<open>renderChildren\<close> returns a promise; and when every child is fulfilled, that
  promise is what \<open>renderers.children\<close> makes of the array of the fulfilled values in the
  order of the children, invoked at the tick at which the last child settles (the maximum
  of the children's ticks, not their sum), whatever the order in which they settle.
\<close>

theorem renderChildren_order_and_waiting:
  assumes "render_all renderers substitutions now childrenData = Inr rendered"
  shows "length rendered = length childrenData
       \<and> (\<forall>i<length childrenData.
             render renderers substitutions now (childrenData ! i) = Inr (rendered ! i))
       \<and> (\<not> list_ex is_promise rendered \<longrightarrow>
            renderChildren renderers substitutions now childrenData
            = render_children renderers (Arr rendered) None)
       \<and> (list_ex is_promise rendered \<longrightarrow>
            (\<exists>p. renderChildren renderers substitutions now childrenData = Inr (Promise p)))
       \<and> (list_ex is_promise rendered \<and> (\<forall>x\<in>set rendered. is_fulfilled (as_promise now x)) \<longrightarrow>
            renderChildren renderers substitutions now childrenData
            = Inr (Promise
                (case render_children renderers
                        (Arr (map (\<lambda>x. fulfilled_value (as_promise now x)) rendered))
                        (Some substitutions) of
                   Inl e \<Rightarrow>
                     Rejected (Max (set (map (\<lambda>x. settle_tick (as_promise now x)) rendered))) e
                 | Inr w \<Rightarrow>
                     as_promise (Max (set (map (\<lambda>x. settle_tick (as_promise now x)) rendered))) w)))"
  using render_all_nth [OF assms] renderChildren_sync [OF assms] renderChildren_async [OF assms]
    renderChildren_all_fulfilled [OF assms]
  by blast

theorem renderChildren_order_and_waiting_witness:
  "render_all text_renderers [] 0
     [Leaf (Lit '' ''), Elem (Comp Async) [(''delay'', One (Lit ''200''))] [Leaf (Lit ''One'')],
      Leaf (Lit '' ''), Elem (Comp Async) [(''delay'', One (Lit ''100''))] [Leaf (Lit ''Two'')],
      Leaf (Lit '' '')]
   = Inr [Str '' '', Promise (Fulfilled 200 (Str ''[One]'')), Str '' '',
          Promise (Fulfilled 100 (Str ''[Two]'')), Str '' '']
   \<and> renderChildren text_renderers [] 0
     [Leaf (Lit '' ''), Elem (Comp Async) [(''delay'', One (Lit ''200''))] [Leaf (Lit ''One'')],
      Leaf (Lit '' ''), Elem (Comp Async) [(''delay'', One (Lit ''100''))] [Leaf (Lit ''Two'')],
      Leaf (Lit '' '')]
   = Inr (Promise (Fulfilled 200 (Str '' [One] [Two] '')))
   \<and> renderChildren text_renderers [Str ''world''] 0
     [Leaf (Lit ''Hello, ''), Elem (Comp Bold) [] [Leaf (Idx 0)], Leaf (Lit ''.'')]
   = Inr (Str ''Hello, <b>world</b>.'')"
proof -
  let ?cs = "[Leaf (Lit '' ''), Elem (Comp Async) [(''delay'', One (Lit ''200''))] [Leaf (Lit ''One'')],
      Leaf (Lit '' ''), Elem (Comp Async) [(''delay'', One (Lit ''100''))] [Leaf (Lit ''Two'')],
      Leaf (Lit '' '')]"
  let ?rendered = "[Str '' '', Promise (Fulfilled 200 (Str ''[One]'')), Str '' '',
          Promise (Fulfilled 100 (Str ''[Two]'')), Str '' '']"
  have d: "parseInt ''200'' = 200" "parseInt ''100'' = 100"
    by (simp_all add: parseInt_def)
  have r: "render_all text_renderers [] 0 ?cs = Inr ?rendered"
    by (simp add: text_renderers_def renderValueToText_def renderChildrenToText_def
        resolveAttributes_def renderComponent_def Async_def get_prop_def assign_def d)
  have p: "list_ex is_promise ?rendered"
    by simp
  have f: "\<forall>x\<in>set ?rendered. is_fulfilled (as_promise 0 x)"
    by simp
  let ?ds = "[Leaf (Lit ''Hello, ''), Elem (Comp Bold) [] [Leaf (Idx 0)], Leaf (Lit ''.'')]"
  let ?plain = "[Str ''Hello, '', Str ''<b>world</b>'', Str ''.'']"
  have r': "render_all text_renderers [Str ''world''] 0 ?ds = Inr ?plain"
    by (simp add: text_renderers_def renderValueToText_def renderChildrenToText_def
        resolveAttributes_def renderComponent_def Bold_def get_prop_def subs_at_def)
  have p': "\<not> list_ex is_promise ?plain"
    by simp
  from renderChildren_order_and_waiting [OF r] p f r
    renderChildren_order_and_waiting [OF r'] p'
  show ?thesis
    by (simp add: text_renderers_def renderChildrenToText_def)
qed

end
